theory Spec2Isabelle
  imports Main
begin

section \<open>JavaScript values, exceptions and the host\<close>

text \<open>
  The converter of \<^verbatim>\<open>src/utils/converters/json-to-xml.ts\<close> takes a value of type
  \<^verbatim>\<open>unknown\<close>. The values modelled here are the ones \<^verbatim>\<open>JSON.parse\<close> produces (null,
  booleans, numbers, strings, arrays, plain objects) together with \<^verbatim>\<open>undefined\<close>.
  Numbers are kept abstract (type \<open>'n\<close>): the code only renders them in template literals,
  tests their truthiness and compares a \<^verbatim>\<open>length\<close> with zero, and all three are supplied
  by the host. An object is an association list read with \<open>map_of\<close>. A string is a list of
  characters of type \<open>char\<close> (bytes, text beyond ASCII being in UTF-8): the five characters
  the escaper looks for are ASCII and never part of a longer sequence.
\<close>

datatype 'n js =
    JUndefined
  | JNull
  | JBool bool
  | JNum 'n
  | JStr string
  | JArr "'n js list"
  | JObj "(string \<times> 'n js) list"

text \<open>
  Thrown values. \<open>Error m\<close> is \<^verbatim>\<open>new Error(m)\<close>, \<open>SyntaxError m\<close> is what
  \<^verbatim>\<open>JSON.parse\<close> throws. The native type errors of the engine are
  distinguished by the place they come from: reading a property of \<^verbatim>\<open>undefined\<close> or
  \<^verbatim>\<open>null\<close>, calling a method that is not there, and converting an object that has no
  primitive value to a string. Their message texts belong to the engine.
\<close>

datatype type_error = NullishRead string | NotCallable string | NoPrimitive

datatype exn = Error string | SyntaxError string | TypeError type_error

record 'n host =
  JSON_parse :: "string \<Rightarrow> string + 'n js"
  Number_toString :: "'n \<Rightarrow> string"
  Number_falsy :: "'n \<Rightarrow> bool"
  Number_is_zero :: "'n \<Rightarrow> bool"
  TypeError_message :: "type_error \<Rightarrow> string"

text \<open>
  \<open>JSON_parse\<close> returns \<open>Inl m\<close> when \<^verbatim>\<open>JSON.parse\<close> throws a \<^verbatim>\<open>SyntaxError\<close> with message
  \<open>m\<close>. \<open>Number_falsy\<close> holds of \<^verbatim>\<open>0\<close>, \<^verbatim>\<open>-0\<close> and \<^verbatim>\<open>NaN\<close>; \<open>Number_is_zero n\<close> is
  \<^verbatim>\<open>n === 0\<close>.
\<close>

definition message :: "'n host \<Rightarrow> exn \<Rightarrow> string" where
  "message h e =
     (case e of Error m \<Rightarrow> m | SyntaxError m \<Rightarrow> m | TypeError k \<Rightarrow> TypeError_message h k)"

definition bind_exn :: "'e + 'a \<Rightarrow> ('a \<Rightarrow> 'e + 'b) \<Rightarrow> 'e + 'b" where
  "bind_exn m f = (case m of Inl e \<Rightarrow> Inl e | Inr v \<Rightarrow> f v)"

fun truthy :: "'n host \<Rightarrow> 'n js \<Rightarrow> bool" where
  "truthy h JUndefined = False"
| "truthy h JNull = False"
| "truthy h (JBool b) = b"
| "truthy h (JNum n) = (\<not> Number_falsy h n)"
| "truthy h (JStr s) = (s \<noteq> [])"
| "truthy h (JArr xs) = True"
| "truthy h (JObj kvs) = True"

fun typeof :: "'n js \<Rightarrow> string" where
  "typeof JUndefined = ''undefined''"
| "typeof JNull = ''object''"
| "typeof (JBool b) = ''boolean''"
| "typeof (JNum n) = ''number''"
| "typeof (JStr s) = ''string''"
| "typeof (JArr xs) = ''object''"
| "typeof (JObj kvs) = ''object''"

fun nullish :: "'n js \<Rightarrow> bool" where
  "nullish JUndefined = True"
| "nullish JNull = True"
| "nullish v = False"

text \<open>
  \<open>get_prop v k\<close> is the read \<^verbatim>\<open>v.k\<close> of a data property. It is used only with the
  field names of the response schema, none of which is a property of a prototype, so a
  boolean, a number, a string and an array have no such property. \<open>get_opt\<close> is \<^verbatim>\<open>v?.k\<close>.
\<close>

fun get_prop :: "'n js \<Rightarrow> string \<Rightarrow> exn + 'n js" where
  "get_prop JUndefined k = Inl (TypeError (NullishRead k))"
| "get_prop JNull k = Inl (TypeError (NullishRead k))"
| "get_prop (JObj kvs) k = Inr (case map_of kvs k of None \<Rightarrow> JUndefined | Some v \<Rightarrow> v)"
| "get_prop v k = Inr JUndefined"

definition get_opt :: "'n js \<Rightarrow> string \<Rightarrow> exn + 'n js" where
  "get_opt v k = (if nullish v then Inr JUndefined else get_prop v k)"

text \<open>\<^verbatim>\<open>v.length === 0\<close>: an array and a string have a length, an object may own one.\<close>

fun length_is_zero :: "'n host \<Rightarrow> 'n js \<Rightarrow> exn + bool" where
  "length_is_zero h JUndefined = Inl (TypeError (NullishRead ''length''))"
| "length_is_zero h JNull = Inl (TypeError (NullishRead ''length''))"
| "length_is_zero h (JArr xs) = Inr (xs = [])"
| "length_is_zero h (JStr s) = Inr (s = [])"
| "length_is_zero h (JObj kvs) =
     Inr (case map_of kvs ''length'' of Some (JNum n) \<Rightarrow> Number_is_zero h n | _ \<Rightarrow> False)"
| "length_is_zero h v = Inr False"

text \<open>\<^verbatim>\<open>Array.prototype.join\<close> on strings.\<close>

fun join :: "string \<Rightarrow> string list \<Rightarrow> string" where
  "join sep [] = []"
| "join sep [x] = x"
| "join sep (x # y # ys) = x @ sep @ join sep (y # ys)"

text \<open>
  The conversion to a string that a template literal applies. An array joins its elements
  with a comma, \<^verbatim>\<open>null\<close> and \<^verbatim>\<open>undefined\<close> elements giving the empty string. A plain
  object prints as \<^verbatim>\<open>[object Object]\<close>, unless it owns a \<^verbatim>\<open>toString\<close> property: that one
  is data, not a function, so is \<^verbatim>\<open>valueOf\<close> if owned, and the inherited \<^verbatim>\<open>valueOf\<close>
  returns the object itself, hence a type error.
\<close>

fun toString :: "'n host \<Rightarrow> 'n js \<Rightarrow> exn + string"
  and toStrings :: "'n host \<Rightarrow> 'n js list \<Rightarrow> exn + string list" where
  "toString h JUndefined = Inr ''undefined''"
| "toString h JNull = Inr ''null''"
| "toString h (JBool b) = Inr (if b then ''true'' else ''false'')"
| "toString h (JNum n) = Inr (Number_toString h n)"
| "toString h (JStr s) = Inr s"
| "toString h (JArr xs) =
     (case toStrings h xs of Inl e \<Rightarrow> Inl e | Inr ss \<Rightarrow> Inr (join '','' ss))"
| "toString h (JObj kvs) =
     (case map_of kvs ''toString'' of
        None \<Rightarrow> Inr ''[object Object]''
      | Some f \<Rightarrow> Inl (TypeError NoPrimitive))"
| "toStrings h [] = Inr []"
| "toStrings h (x # xs) =
     (case (if nullish x then Inr [] else toString h x) of
        Inl e \<Rightarrow> Inl e
      | Inr s \<Rightarrow> (case toStrings h xs of Inl e \<Rightarrow> Inl e | Inr ss \<Rightarrow> Inr (s # ss)))"

section \<open>The escaper\<close>

text \<open>\<^verbatim>\<open>s.replace(/c/g, r)\<close> for a single character \<open>c\<close> and a replacement without \<^verbatim>\<open>$\<close>.\<close>

definition replace_all :: "char \<Rightarrow> string \<Rightarrow> string \<Rightarrow> string" where
  "replace_all c r s = concat (map (\<lambda>x. if x = c then r else [x]) s)"

definition escapeXml :: "string \<Rightarrow> string" where
  "escapeXml unsafe =
     replace_all (CHR 0x27) ''&#39;''
       (replace_all (CHR 0x22) ''&quot;''
         (replace_all CHR ''>'' ''&gt;''
           (replace_all CHR ''<'' ''&lt;''
             (replace_all CHR ''&'' ''&amp;'' unsafe))))"

text \<open>
  The encoders take \<^verbatim>\<open>any\<close>, so \<open>escapeXml\<close> can be handed a value that is not a string:
  the first \<^verbatim>\<open>.replace\<close> then throws.
\<close>

fun escapeXml_any :: "'n js \<Rightarrow> exn + string" where
  "escapeXml_any (JStr s) = Inr (escapeXml s)"
| "escapeXml_any JUndefined = Inl (TypeError (NullishRead ''replace''))"
| "escapeXml_any JNull = Inl (TypeError (NullishRead ''replace''))"
| "escapeXml_any v = Inl (TypeError (NotCallable ''replace''))"

section \<open>The tool encoders\<close>

fun read_file_loop :: "'n host \<Rightarrow> string \<Rightarrow> 'n js list \<Rightarrow> exn + string" where
  "read_file_loop h xml [] = Inr xml"
| "read_file_loop h xml (file # files) =
     bind_exn (get_prop file ''path'') (\<lambda>p.
     bind_exn (escapeXml_any p) (\<lambda>ep.
     bind_exn (get_prop file ''line_range'') (\<lambda>lr.
     bind_exn (if truthy h lr
               then bind_exn (escapeXml_any lr) (\<lambda>elr.
                      Inr (''    <line_range>'' @ elr @ ''</line_range>\<newline>''))
               else Inr []) (\<lambda>range.
     read_file_loop h
       (xml @ ''  <file>\<newline>'' @ (''    <path>'' @ ep @ ''</path>\<newline>'') @ range
          @ ''  </file>\<newline>'')
       files))))"

definition convertReadFileToXml :: "'n host \<Rightarrow> 'n js \<Rightarrow> exn + string" where
  "convertReadFileToXml h toolUse =
     bind_exn (get_prop toolUse ''args'') (\<lambda>args.
     bind_exn (get_prop args ''file'') (\<lambda>file.
     bind_exn (read_file_loop h ''<read_file>\<newline><args>\<newline>''
                 (case file of JArr fs \<Rightarrow> fs | _ \<Rightarrow> [file])) (\<lambda>xml.
     Inr (xml @ ''</args>\<newline></read_file>''))))"

definition convertSearchFilesToXml :: "'n host \<Rightarrow> 'n js \<Rightarrow> exn + string" where
  "convertSearchFilesToXml h toolUse =
     bind_exn (get_prop toolUse ''path'') (\<lambda>p.
     bind_exn (escapeXml_any p) (\<lambda>ep.
     bind_exn (get_prop toolUse ''regex'') (\<lambda>r.
     bind_exn (escapeXml_any r) (\<lambda>er.
     bind_exn (get_prop toolUse ''file_pattern'') (\<lambda>fp.
     bind_exn (if truthy h fp
               then bind_exn (escapeXml_any fp) (\<lambda>efp.
                      Inr (''<file_pattern>'' @ efp @ ''</file_pattern>\<newline>''))
               else Inr []) (\<lambda>pat.
     Inr (''<search_files>\<newline>'' @ (''<path>'' @ ep @ ''</path>\<newline>'')
            @ (''<regex>'' @ er @ ''</regex>\<newline>'') @ pat @ ''</search_files>'')))))))"

definition convertListFilesToXml :: "'n host \<Rightarrow> 'n js \<Rightarrow> exn + string" where
  "convertListFilesToXml h toolUse =
     bind_exn (get_prop toolUse ''path'') (\<lambda>p.
     bind_exn (escapeXml_any p) (\<lambda>ep.
     bind_exn (get_prop toolUse ''recursive'') (\<lambda>r.
     bind_exn (if r \<noteq> JUndefined
               then bind_exn (toString h r) (\<lambda>rs.
                      Inr (''<recursive>'' @ rs @ ''</recursive>\<newline>''))
               else Inr []) (\<lambda>recursive.
     Inr (''<list_files>\<newline>'' @ (''<path>'' @ ep @ ''</path>\<newline>'') @ recursive
            @ ''</list_files>'')))))"

definition convertListCodeDefinitionNamesToXml :: "'n host \<Rightarrow> 'n js \<Rightarrow> exn + string" where
  "convertListCodeDefinitionNamesToXml h toolUse =
     bind_exn (get_prop toolUse ''path'') (\<lambda>p.
     bind_exn (escapeXml_any p) (\<lambda>ep.
     Inr (''<list_code_definition_names>\<newline>'' @ (''<path>'' @ ep @ ''</path>\<newline>'')
            @ ''</list_code_definition_names>'')))"

definition convertWriteToFileToXml :: "'n host \<Rightarrow> 'n js \<Rightarrow> exn + string" where
  "convertWriteToFileToXml h toolUse =
     bind_exn (get_prop toolUse ''path'') (\<lambda>p.
     bind_exn (escapeXml_any p) (\<lambda>ep.
     bind_exn (get_prop toolUse ''content'') (\<lambda>c.
     bind_exn (escapeXml_any c) (\<lambda>ec.
     bind_exn (get_prop toolUse ''line_count'') (\<lambda>n.
     bind_exn (toString h n) (\<lambda>ns.
     Inr (''<write_to_file>\<newline>'' @ (''<path>'' @ ep @ ''</path>\<newline>'')
            @ (''<content>\<newline>'' @ ec @ ''\<newline></content>\<newline>'')
            @ (''<line_count>'' @ ns @ ''</line_count>\<newline>'')
            @ ''</write_to_file>'')))))))"

definition convertApplyDiffToXml :: "'n host \<Rightarrow> 'n js \<Rightarrow> exn + string" where
  "convertApplyDiffToXml h toolUse =
     bind_exn (get_prop toolUse ''path'') (\<lambda>p.
     bind_exn (escapeXml_any p) (\<lambda>ep.
     bind_exn (get_prop toolUse ''diff'') (\<lambda>d.
     bind_exn (escapeXml_any d) (\<lambda>ed.
     Inr (''<apply_diff>\<newline>'' @ (''<path>'' @ ep @ ''</path>\<newline>'')
            @ (''<diff>\<newline>'' @ ed @ ''\<newline></diff>\<newline>'')
            @ ''</apply_diff>'')))))"

definition convertFetchInstructionsToXml :: "'n host \<Rightarrow> 'n js \<Rightarrow> exn + string" where
  "convertFetchInstructionsToXml h toolUse =
     bind_exn (get_prop toolUse ''task'') (\<lambda>t.
     bind_exn (escapeXml_any t) (\<lambda>et.
     Inr (''<fetch_instructions>\<newline>'' @ (''<task>'' @ et @ ''</task>\<newline>'')
            @ ''</fetch_instructions>'')))"

section \<open>The dispatcher\<close>

definition convertSingleToolToXml :: "'n host \<Rightarrow> 'n js \<Rightarrow> exn + string" where
  "convertSingleToolToXml h toolUse =
     bind_exn (get_prop toolUse ''tool'') (\<lambda>tool.
       if tool = JStr ''read_file'' then convertReadFileToXml h toolUse
       else if tool = JStr ''search_files'' then convertSearchFilesToXml h toolUse
       else if tool = JStr ''list_files'' then convertListFilesToXml h toolUse
       else if tool = JStr ''list_code_definition_names''
         then convertListCodeDefinitionNamesToXml h toolUse
       else if tool = JStr ''write_to_file'' then convertWriteToFileToXml h toolUse
       else if tool = JStr ''apply_diff'' then convertApplyDiffToXml h toolUse
       else if tool = JStr ''fetch_instructions'' then convertFetchInstructionsToXml h toolUse
       else bind_exn (toString h tool) (\<lambda>s. Inl (Error (''Unknown tool type: '' @ s))))"

text \<open>\<^verbatim>\<open>xs.map(f)\<close> with a callback that may throw: the first exception ends the traversal.\<close>

fun map_exn :: "('a \<Rightarrow> exn + 'b) \<Rightarrow> 'a list \<Rightarrow> exn + 'b list" where
  "map_exn f [] = Inr []"
| "map_exn f (x # xs) =
     (case f x of
        Inl e \<Rightarrow> Inl e
      | Inr y \<Rightarrow> (case map_exn f xs of Inl e \<Rightarrow> Inl e | Inr ys \<Rightarrow> Inr (y # ys)))"

text \<open>Only an array has a \<^verbatim>\<open>map\<close> method.\<close>

fun convertMultipleToolsToXml :: "'n host \<Rightarrow> 'n js \<Rightarrow> exn + string" where
  "convertMultipleToolsToXml h (JArr tools) =
     bind_exn (map_exn (convertSingleToolToXml h) tools) (\<lambda>xs.
       Inr (join ''\<newline>\<newline>'' xs))"
| "convertMultipleToolsToXml h JUndefined = Inl (TypeError (NullishRead ''map''))"
| "convertMultipleToolsToXml h JNull = Inl (TypeError (NullishRead ''map''))"
| "convertMultipleToolsToXml h v = Inl (TypeError (NotCallable ''map''))"

section \<open>The orchestrator\<close>

text \<open>
  An optional field of \<^verbatim>\<open>ConversionResult\<close> is \<open>None\<close> when the object literal that builds
  the result does not mention it; a mentioned field holds the value it was given, which can
  be \<^verbatim>\<open>undefined\<close>.
\<close>

record 'n ConversionResult =
  success :: bool
  xml :: "'n js option"
  error :: "string option"
  reasoning :: "'n js option"
  thinking :: "'n js option"

definition failure :: "string \<Rightarrow> 'n ConversionResult" where
  "failure msg =
     \<lparr>success = False, xml = None, error = Some msg, reasoning = None, thinking = None\<rparr>"

text \<open>\<^verbatim>\<open>a || b\<close> where \<open>b\<close> may throw.\<close>

definition or_else :: "'n host \<Rightarrow> 'n js \<Rightarrow> (exn + 'n js) \<Rightarrow> exn + 'n js" where
  "or_else h a b = (if truthy h a then Inr a else b)"

text \<open>
  The statements of the \<^verbatim>\<open>try\<close> block after the input has been parsed, in three parts:
  the expression that extracts \<^verbatim>\<open>reasoning\<close>, the \<^verbatim>\<open>switch\<close> on \<^verbatim>\<open>response_type\<close>,
  and the guard and the extraction of \<^verbatim>\<open>thinking\<close> in front of them.
\<close>

definition response_reasoning :: "'n host \<Rightarrow> 'n js \<Rightarrow> exn + 'n js" where
  "response_reasoning h response =
     bind_exn (get_prop response ''single_tool'') (\<lambda>st.
     bind_exn (get_opt st ''reasoning'') (\<lambda>r1.
     or_else h r1
       (bind_exn (get_prop response ''multiple_tools'') (\<lambda>mt. get_opt mt ''reasoning''))))"

definition convert_switch ::
  "'n host \<Rightarrow> 'n js \<Rightarrow> 'n js \<Rightarrow> 'n js \<Rightarrow> exn + 'n ConversionResult" where
  "convert_switch h response th re =
     bind_exn (get_prop response ''response_type'') (\<lambda>rt.
       if rt = JStr ''text_only'' then
         bind_exn (get_prop response ''text_response'') (\<lambda>t.
         bind_exn (or_else h t (Inr (JStr []))) (\<lambda>x.
           Inr \<lparr>success = True, xml = Some x, error = None, reasoning = None,
                thinking = Some th\<rparr>))
       else if rt = JStr ''single_tool'' then
         bind_exn (get_prop response ''single_tool'') (\<lambda>st.
         bind_exn (get_opt st ''tool_use'') (\<lambda>tu.
           if \<not> truthy h tu then Inr (failure ''Single tool response missing tool_use'')
           else
             bind_exn (convertSingleToolToXml h tu) (\<lambda>x.
               Inr \<lparr>success = True, xml = Some (JStr x), error = None,
                    reasoning = Some re, thinking = Some th\<rparr>)))
       else if rt = JStr ''multiple_tools'' then
         bind_exn (get_prop response ''multiple_tools'') (\<lambda>mt.
         bind_exn (get_opt mt ''tools'') (\<lambda>ts.
         bind_exn (if \<not> truthy h ts then Inr True else length_is_zero h ts) (\<lambda>missing.
           if missing then Inr (failure ''Multiple tools response missing tools array'')
           else
             bind_exn (convertMultipleToolsToXml h ts) (\<lambda>x.
               Inr \<lparr>success = True, xml = Some (JStr x), error = None,
                    reasoning = Some re, thinking = Some th\<rparr>))))
       else
         bind_exn (toString h rt) (\<lambda>s.
           Inr (failure (''Unknown response_type: '' @ s))))"

definition convert_parsed :: "'n host \<Rightarrow> 'n js \<Rightarrow> exn + 'n ConversionResult" where
  "convert_parsed h parsedResponse =
     (if \<not> truthy h parsedResponse \<or> typeof parsedResponse \<noteq> ''object''
      then Inr (failure ''Invalid input: expected object or JSON string'')
      else
        bind_exn (get_prop parsedResponse ''thinking'') (\<lambda>th.
        bind_exn (response_reasoning h parsedResponse) (\<lambda>re.
        convert_switch h parsedResponse th re)))"

text \<open>The whole \<^verbatim>\<open>try\<close> block: a string is parsed first, anything else is taken as it is.\<close>

definition convertJsonToXml_try :: "'n host \<Rightarrow> 'n js \<Rightarrow> exn + 'n ConversionResult" where
  "convertJsonToXml_try h jsonResponse =
     (case jsonResponse of
        JStr text \<Rightarrow>
          (case JSON_parse h text of
             Inl m \<Rightarrow> Inr (failure (''Failed to parse JSON string: '' @ m))
           | Inr parsedResponse \<Rightarrow> convert_parsed h parsedResponse)
      | _ \<Rightarrow> convert_parsed h jsonResponse)"

text \<open>The \<^verbatim>\<open>catch\<close> clause turns whatever the block threw into a failure result.\<close>

definition convertJsonToXml :: "'n host \<Rightarrow> 'n js \<Rightarrow> 'n ConversionResult" where
  "convertJsonToXml h jsonResponse =
     (case convertJsonToXml_try h jsonResponse of
        Inr result \<Rightarrow> result
      | Inl e \<Rightarrow> failure (''Conversion error: '' @ message h e))"

section \<open>The structural validator\<close>

record validation =
  valid :: bool
  errors :: "string list"

text \<open>
  The validator pushes onto \<^verbatim>\<open>errors\<close> as it goes, and its \<^verbatim>\<open>catch\<close> clause pushes one
  more entry onto whatever is there: an exception carries the list as it was when thrown.
\<close>

definition thrown_with :: "string list \<Rightarrow> exn + 'a \<Rightarrow> (exn \<times> string list) + 'a" where
  "thrown_with errs m = (case m of Inl e \<Rightarrow> Inl (e, errs) | Inr v \<Rightarrow> Inr v)"

definition check_response_type ::
  "'n host \<Rightarrow> 'n js \<Rightarrow> string list \<Rightarrow> (exn \<times> string list) + string list" where
  "check_response_type h response errs =
     bind_exn (thrown_with errs (get_prop response ''response_type'')) (\<lambda>rt.
       if \<not> truthy h rt then Inr (errs @ [''Missing required field: response_type''])
       else if rt \<notin> set [JStr ''single_tool'', JStr ''multiple_tools'', JStr ''text_only'']
       then bind_exn (thrown_with errs (toString h rt)) (\<lambda>s.
              Inr (errs @ [''Invalid response_type: '' @ s]))
       else Inr errs)"

definition check_single_tool ::
  "'n host \<Rightarrow> 'n js \<Rightarrow> string list \<Rightarrow> (exn \<times> string list) + string list" where
  "check_single_tool h response errs =
     bind_exn (thrown_with errs (get_prop response ''single_tool'')) (\<lambda>st.
       if \<not> truthy h st
       then Inr (errs @ [''single_tool field is required for single_tool response_type''])
       else bind_exn (thrown_with errs (get_prop st ''tool_use'')) (\<lambda>tu.
              if \<not> truthy h tu then Inr (errs @ [''tool_use field is required in single_tool''])
              else Inr errs))"

definition check_multiple_tools ::
  "'n host \<Rightarrow> 'n js \<Rightarrow> string list \<Rightarrow> (exn \<times> string list) + string list" where
  "check_multiple_tools h response errs =
     bind_exn (thrown_with errs (get_prop response ''multiple_tools'')) (\<lambda>mt.
       if \<not> truthy h mt
       then Inr (errs @ [''multiple_tools field is required for multiple_tools response_type''])
       else bind_exn (thrown_with errs (get_prop mt ''tools'')) (\<lambda>ts.
              case ts of
                JArr xs \<Rightarrow>
                  bind_exn (thrown_with errs (length_is_zero h ts)) (\<lambda>z.
                    if z then Inr (errs @ [''tools array cannot be empty'']) else Inr errs)
              | _ \<Rightarrow> Inr (errs @ [''tools field must be an array in multiple_tools''])))"

definition check_text_only ::
  "'n host \<Rightarrow> 'n js \<Rightarrow> string list \<Rightarrow> (exn \<times> string list) + string list" where
  "check_text_only h response errs =
     bind_exn (thrown_with errs (get_prop response ''text_response'')) (\<lambda>t.
       if \<not> truthy h t
       then Inr (errs @ [''text_response field is required for text_only response_type''])
       else Inr errs)"

definition validate_parsed :: "'n host \<Rightarrow> 'n js \<Rightarrow> (exn \<times> string list) + validation" where
  "validate_parsed h response =
     (if \<not> truthy h response \<or> typeof response \<noteq> ''object''
      then Inr \<lparr>valid = False, errors = [''Response must be an object'']\<rparr>
      else
        bind_exn (check_response_type h response []) (\<lambda>errs1.
        bind_exn (thrown_with errs1 (get_prop response ''response_type'')) (\<lambda>rt.
        bind_exn (if rt = JStr ''single_tool'' then check_single_tool h response errs1
                  else if rt = JStr ''multiple_tools'' then check_multiple_tools h response errs1
                  else if rt = JStr ''text_only'' then check_text_only h response errs1
                  else Inr errs1) (\<lambda>errs2.
        Inr \<lparr>valid = (length errs2 = 0), errors = errs2\<rparr>))))"

definition validateJsonStructure_try ::
  "'n host \<Rightarrow> 'n js \<Rightarrow> (exn \<times> string list) + validation" where
  "validateJsonStructure_try h jsonResponse =
     (case jsonResponse of
        JStr text \<Rightarrow>
          (case JSON_parse h text of
             Inl m \<Rightarrow> Inl (SyntaxError m, [])
           | Inr response \<Rightarrow> validate_parsed h response)
      | _ \<Rightarrow> validate_parsed h jsonResponse)"

definition validateJsonStructure :: "'n host \<Rightarrow> 'n js \<Rightarrow> validation" where
  "validateJsonStructure h jsonResponse =
     (case validateJsonStructure_try h jsonResponse of
        Inr r \<Rightarrow> r
      | Inl (e, errs) \<Rightarrow>
          \<lparr>valid = False, errors = errs @ [''JSON parsing error: '' @ message h e]\<rparr>)"

section \<open>The batch runner\<close>

definition convertMultipleJsonToXml :: "'n host \<Rightarrow> 'n js list \<Rightarrow> 'n ConversionResult list" where
  "convertMultipleJsonToXml h jsonResponses = map (convertJsonToXml h) jsonResponses"

section \<open>Notions used to state the properties\<close>

text \<open>The number of positions of \<open>s\<close> at which \<open>pat\<close> occurs, and containment.\<close>

fun count_occ :: "string \<Rightarrow> string \<Rightarrow> nat" where
  "count_occ pat [] = (if pat = [] then 1 else 0)"
| "count_occ pat (x # xs) =
     (if take (length pat) (x # xs) = pat then 1 else 0) + count_occ pat xs"

definition contains :: "string \<Rightarrow> string \<Rightarrow> bool" where
  "contains s pat = (0 < count_occ pat s)"

text \<open>The five characters the escaper replaces, and what each one becomes.\<close>

definition special :: "char set" where
  "special = {CHR ''&'', CHR ''<'', CHR ''>'', CHR 0x22, CHR 0x27}"

definition entity :: "char \<Rightarrow> string" where
  "entity c =
     (if c = CHR ''&'' then ''&amp;''
      else if c = CHR ''<'' then ''&lt;''
      else if c = CHR ''>'' then ''&gt;''
      else if c = CHR 0x22 then ''&quot;''
      else if c = CHR 0x27 then ''&#39;''
      else [c])"

text \<open>The substitutions of the escaper, in the order the source applies them.\<close>

definition substitutions :: "(char \<times> string) list" where
  "substitutions =
     [(CHR ''&'', ''&amp;''), (CHR ''<'', ''&lt;''), (CHR ''>'', ''&gt;''),
      (CHR 0x22, ''&quot;''), (CHR 0x27, ''&#39;'')]"

text \<open>
  A host to evaluate the definitions with: numbers are integers printed in decimal, and
  the parser knows one document, the one of the test "should handle JSON string input".
\<close>

fun show_nat :: "nat \<Rightarrow> string" where
  "show_nat n =
     (if n < 10 then [char_of (48 + n)] else show_nat (n div 10) @ [char_of (48 + n mod 10)])"

declare show_nat.simps [simp del]

definition show_int :: "int \<Rightarrow> string" where
  "show_int i = (if i < 0 then ''-'' @ show_nat (nat (- i)) else show_nat (nat i))"

definition hello_text :: string where
  "hello_text =
     [CHR ''{'', CHR 0x22] @ ''response_type'' @ [CHR 0x22, CHR '':'', CHR 0x22] @ ''text_only''
       @ [CHR 0x22, CHR '','', CHR 0x22] @ ''text_response'' @ [CHR 0x22, CHR '':'', CHR 0x22]
       @ ''Hello from JSON string'' @ [CHR 0x22, CHR ''}'']"

definition sample_host :: "int host" where
  "sample_host =
     \<lparr>JSON_parse = (\<lambda>text.
        if text = hello_text
        then Inr (JObj [(''response_type'', JStr ''text_only''),
                        (''text_response'', JStr ''Hello from JSON string'')])
        else Inl ''Unexpected token''),
      Number_toString = show_int,
      Number_falsy = (\<lambda>n. n = 0),
      Number_is_zero = (\<lambda>n. n = 0),
      TypeError_message = (\<lambda>k. case k of
          NullishRead p \<Rightarrow> ''Cannot read properties of undefined (reading '' @ p @ '')''
        | NotCallable m \<Rightarrow> m @ '' is not a function''
        | NoPrimitive \<Rightarrow> ''Cannot convert object to primitive value'')\<rparr>"

section \<open>Typed views of the inputs and the expected renderings\<close>

text \<open>
  A \<^verbatim>\<open>FileRef\<close> of the schema, the values that carry one, and the block and the
  document the \<^verbatim>\<open>read_file\<close> grammar prescribes for a sequence of them. A range that is
  the empty string is rendered like an absent one.
\<close>

record FileRef =
  path :: string
  line_range :: "string option"

definition is_FileRef :: "'n js \<Rightarrow> FileRef \<Rightarrow> bool" where
  "is_FileRef v f =
     (get_prop v ''path'' = Inr (JStr (path f))
      \<and> get_prop v ''line_range''
          = Inr (case line_range f of None \<Rightarrow> JUndefined | Some r \<Rightarrow> JStr r))"

definition file_block :: "FileRef \<Rightarrow> string" where
  "file_block f =
     ''  <file>\<newline>'' @ ''    <path>'' @ escapeXml (path f) @ ''</path>\<newline>''
       @ (case line_range f of
            None \<Rightarrow> []
          | Some r \<Rightarrow> if r = [] then []
                     else ''    <line_range>'' @ escapeXml r @ ''</line_range>\<newline>'')
       @ ''  </file>\<newline>''"

definition read_file_xml :: "FileRef list \<Rightarrow> string" where
  "read_file_xml fs =
     ''<read_file>\<newline><args>\<newline>'' @ concat (map file_block fs)
       @ ''</args>\<newline></read_file>''"

text \<open>The rendering of a \<^verbatim>\<open>list_files\<close> invocation with an optional boolean.\<close>

definition list_files_xml :: "string \<Rightarrow> bool option \<Rightarrow> string" where
  "list_files_xml p r =
     ''<list_files>\<newline>'' @ ''<path>'' @ escapeXml p @ ''</path>\<newline>''
       @ (case r of
            None \<Rightarrow> []
          | Some b \<Rightarrow> ''<recursive>'' @ (if b then ''true'' else ''false'') @ ''</recursive>\<newline>'')
       @ ''</list_files>''"

text \<open>The seven tool kinds, and what the dispatcher throws for any other tag.\<close>

definition known_tools :: "string list" where
  "known_tools =
     [''read_file'', ''search_files'', ''list_files'', ''list_code_definition_names'',
      ''write_to_file'', ''apply_diff'', ''fetch_instructions'']"

definition unknown_tool_exn :: "'n host \<Rightarrow> 'n js \<Rightarrow> exn" where
  "unknown_tool_exn h tool =
     (case toString h tool of Inl e \<Rightarrow> e | Inr s \<Rightarrow> Error (''Unknown tool type: '' @ s))"

text \<open>A field of a result is defined when it is there and is not \<^verbatim>\<open>undefined\<close>.\<close>

fun is_defined :: "'n js option \<Rightarrow> bool" where
  "is_defined None = False"
| "is_defined (Some v) = (v \<noteq> JUndefined)"

definition result_ok :: "'n ConversionResult \<Rightarrow> bool" where
  "result_ok r =
     (is_defined (xml r) = success r
      \<and> (\<not> success r \<longrightarrow>
            error r \<noteq> None \<and> xml r = None \<and> thinking r = None \<and> reasoning r = None))"

definition required_text_response :: string where
  "required_text_response = ''text_response field is required for text_only response_type''"

section \<open>Concrete inputs\<close>

text \<open>Inputs taken from the repository's tests and the specification's scenarios, and variations of them.\<close>

definition list_files_scenario :: "'n js" where
  "list_files_scenario =
     JObj [(''response_type'', JStr ''single_tool''),
           (''single_tool'', JObj [(''tool_use'',
              JObj [(''tool'', JStr ''list_files''), (''path'', JStr ''src''),
                    (''recursive'', JBool True)])])]"

definition two_files :: "int js" where
  "two_files =
     JObj [(''tool'', JStr ''read_file''),
           (''args'', JObj [(''file'', JArr
              [JObj [(''path'', JStr ''src/file1.ts'')],
               JObj [(''path'', JStr ''src/file2.ts''), (''line_range'', JStr ''10-20'')]])])]"

definition empty_range_file :: "int js" where
  "empty_range_file =
     JObj [(''tool'', JStr ''read_file''),
           (''args'', JObj [(''file'',
              JObj [(''path'', JStr ''a''), (''line_range'', JStr [])])])]"

definition search_tool :: "int js" where
  "search_tool =
     JObj [(''tool'', JStr ''search_files''), (''path'', JStr ''src''), (''regex'', JStr ''TODO'')]"

definition list_tool :: "int js" where
  "list_tool =
     JObj [(''tool'', JStr ''list_files''), (''path'', JStr ''src''), (''recursive'', JBool False)]"

definition unknown_tool_response :: "int js" where
  "unknown_tool_response =
     JObj [(''response_type'', JStr ''single_tool''),
           (''single_tool'', JObj [(''tool_use'',
              JObj [(''tool'', JStr ''delete_file''), (''path'', JStr ''src'')])])]"

definition hello_response :: "int js" where
  "hello_response =
     JObj [(''response_type'', JStr ''text_only''), (''text_response'', JStr ''Hello'')]"

definition empty_text_response :: "int js" where
  "empty_text_response =
     JObj [(''response_type'', JStr ''text_only''), (''text_response'', JStr [])]"

definition absent_text_response :: "int js" where
  "absent_text_response = JObj [(''response_type'', JStr ''text_only'')]"

definition unknown_tools_response :: "int js" where
  "unknown_tools_response =
     JObj [(''response_type'', JStr ''multiple_tools''),
           (''multiple_tools'', JObj [(''tools'', JArr
              [search_tool, JObj [(''tool'', JStr ''delete_file''), (''path'', JStr ''src'')]])])]"

definition one_file :: "int js" where
  "one_file =
     JObj [(''tool'', JStr ''read_file''),
           (''args'', JObj [(''file'',
              JObj [(''path'', JStr ''src/app.ts''), (''line_range'', JStr ''1-50'')])])]"

definition single_tool_response :: "int js" where
  "single_tool_response =
     JObj [(''response_type'', JStr ''single_tool''),
           (''single_tool'', JObj [(''tool_use'', search_tool)])]"

definition multiple_tools_response :: "int js" where
  "multiple_tools_response =
     JObj [(''response_type'', JStr ''multiple_tools''),
           (''multiple_tools'', JObj [(''tools'', JArr [search_tool, list_tool])])]"

section \<open>Properties of the escaper\<close>

lemma replace_all_Nil: "replace_all c r [] = []"
  by (simp add: replace_all_def)

lemma replace_all_Cons: "replace_all c r (x # xs) = (if x = c then r else [x]) @ replace_all c r xs"
  by (simp add: replace_all_def)

lemma replace_all_append: "replace_all c r (xs @ ys) = replace_all c r xs @ replace_all c r ys"
  by (simp add: replace_all_def)

lemma escapeXml_Nil: "escapeXml [] = []"
  by (simp add: escapeXml_def replace_all_Nil)

lemma escapeXml_Cons: "escapeXml (x # xs) = entity x @ escapeXml xs"
  by (simp add: escapeXml_def entity_def replace_all_Cons replace_all_append replace_all_Nil)

lemma escapeXml_entity: "escapeXml s = concat (map entity s)"
  by (induction s) (simp_all add: escapeXml_Nil escapeXml_Cons)

lemma entity_chars: "set (entity c) \<inter> {CHR ''<'', CHR ''>'', CHR 0x22, CHR 0x27} = {}"
  by (simp add: entity_def)

lemma escapeXml_no_markup: "set (escapeXml s) \<inter> {CHR ''<'', CHR ''>'', CHR 0x22, CHR 0x27} = {}"
  using entity_chars by (induction s) (simp_all add: escapeXml_Nil escapeXml_Cons Int_Un_distrib2)

lemma entity_amp:
  assumes "i < length (entity c)" "entity c ! i = CHR ''&''"
  shows "i = 0 \<and> c \<in> special"
proof -
  have "CHR ''&'' \<notin> set (tl (entity c))" "entity c \<noteq> []"
    by (simp_all add: entity_def)
  with assms have "i = 0"
    by (cases i; cases "entity c") (auto simp: in_set_conv_nth)
  with assms have "hd (entity c) = CHR ''&''"
    by (cases "entity c") auto
  then have "c \<in> special" by (simp add: entity_def special_def split: if_splits)
  with \<open>i = 0\<close> show ?thesis by simp
qed

lemma escapeXml_amp:
  "i < length (escapeXml s) \<Longrightarrow> escapeXml s ! i = CHR ''&'' \<Longrightarrow>
     \<exists>c\<in>special. take (length (entity c)) (drop i (escapeXml s)) = entity c"
proof (induction s arbitrary: i)
  case Nil
  then show ?case by (simp add: escapeXml_Nil)
next
  case (Cons x xs)
  show ?case
  proof (cases "i < length (entity x)")
    case True
    with Cons.prems have "entity x ! i = CHR ''&''"
      by (simp add: escapeXml_Cons nth_append)
    with True have "i = 0" "x \<in> special" using entity_amp by blast+
    then show ?thesis by (intro bexI[of _ x]) (simp_all add: escapeXml_Cons)
  next
    case False
    with Cons.prems have "i - length (entity x) < length (escapeXml xs)"
      "escapeXml xs ! (i - length (entity x)) = CHR ''&''"
      by (auto simp: escapeXml_Cons nth_append)
    from Cons.IH[OF this] False show ?thesis
      by (simp add: escapeXml_Cons)
  qed
qed

lemma count_occ_skip:
  "pat \<noteq> [] \<Longrightarrow> hd pat \<notin> set u \<Longrightarrow> count_occ pat (u @ v) = count_occ pat v"
proof (induction u)
  case Nil
  then show ?case by simp
next
  case (Cons a u)
  then obtain p ps where "pat = p # ps" by (cases pat) auto
  with Cons show ?case by auto
qed

lemma special_cases:
  "c \<in> special \<Longrightarrow> c = CHR ''&'' \<or> c = CHR ''<'' \<or> c = CHR ''>'' \<or> c = CHR 0x22 \<or> c = CHR 0x27"
  by (simp add: special_def)

lemma entity_special:
  "c \<in> special \<Longrightarrow> hd (entity c) = CHR ''&'' \<and> CHR ''&'' \<notin> set (tl (entity c)) \<and> 2 \<le> length (entity c)"
  by (drule special_cases) (elim disjE; simp add: entity_def)

lemma entity_take2:
  "x \<in> special \<Longrightarrow> c \<in> special \<Longrightarrow> take 2 (entity x) = take 2 (entity c) \<Longrightarrow> x = c"
  apply (drule special_cases)
  apply (drule special_cases)
  apply (elim disjE; simp add: entity_def)
  done

lemma entity_not_special: "x \<notin> special \<Longrightarrow> entity x = [x]"
  by (simp add: entity_def special_def)

lemma count_occ_entity_step:
  assumes c: "c \<in> special"
  shows "count_occ (entity c) (entity x @ r) = (if x = c then 1 else 0) + count_occ (entity c) r"
proof (cases "x \<in> special")
  case False
  from c have nonempty: "entity c \<noteq> []" and "hd (entity c) = CHR ''&''"
    using entity_special[OF c] by auto
  moreover from False have "x \<noteq> CHR ''&''" "x \<noteq> c" using c by (auto simp: special_def)
  ultimately have "hd (entity c) \<noteq> x" by simp
  with nonempty have "count_occ (entity c) ([x] @ r) = count_occ (entity c) r"
    by (intro count_occ_skip) simp_all
  with False \<open>x \<noteq> c\<close> show ?thesis
    by (simp add: entity_not_special del: count_occ.simps)
next
  case True
  from entity_special[OF c] have nonempty: "entity c \<noteq> []" and hdc: "hd (entity c) = CHR ''&''"
    and len_c: "2 \<le> length (entity c)"
    by auto
  from entity_special[OF True] obtain as where e: "entity x = CHR ''&'' # as"
    and as: "CHR ''&'' \<notin> set as" and len_x: "2 \<le> length (entity x)"
    by (cases "entity x") auto
  have rest: "count_occ (entity c) (as @ r) = count_occ (entity c) r"
    using nonempty hdc as by (intro count_occ_skip) simp_all
  have first: "(take (length (entity c)) (entity x @ r) = entity c) = (x = c)"
  proof
    assume eq: "take (length (entity c)) (entity x @ r) = entity c"
    have "take 2 (entity c) = take 2 (take (length (entity c)) (entity x @ r))"
      by (simp only: eq)
    also have "\<dots> = take 2 (entity x)"
      using len_c len_x by (simp add: min_def)
    finally show "x = c" using entity_take2[OF True c] by simp
  next
    assume "x = c"
    then show "take (length (entity c)) (entity x @ r) = entity c" by simp
  qed
  from first have "(take (length (entity c)) (CHR ''&'' # as @ r) = entity c) = (x = c)"
    by (simp add: e)
  with rest show ?thesis by (simp add: e)
qed

lemma count_occ_escapeXml:
  "c \<in> special \<Longrightarrow> count_occ (entity c) (escapeXml s) = count_list s c"
proof (induction s)
  case Nil
  from entity_special[OF Nil] have "entity c \<noteq> []" by auto
  then show ?case by (simp add: escapeXml_Nil)
next
  case (Cons x xs)
  then show ?case by (simp add: escapeXml_Cons count_occ_entity_step)
qed

lemma escapeXml_plain: "set s \<inter> special = {} \<Longrightarrow> escapeXml s = s"
  by (induction s) (simp_all add: escapeXml_Nil escapeXml_Cons entity_not_special)

lemma length_entity: "length (entity c) = 1 \<and> c \<notin> special \<or> 1 < length (entity c) \<and> c \<in> special"
  using entity_special[of c] entity_not_special[of c] by (cases "c \<in> special") auto

lemma length_escapeXml: "length s \<le> length (escapeXml s)"
proof (induction s)
  case Nil
  show ?case by (simp add: escapeXml_Nil)
next
  case (Cons x xs)
  with length_entity[of x] show ?case by (auto simp: escapeXml_Cons)
qed

lemma length_escapeXml_special:
  "set s \<inter> special \<noteq> {} \<Longrightarrow> length s < length (escapeXml s)"
proof (induction s)
  case Nil
  then show ?case by simp
next
  case (Cons x xs)
  show ?case
  proof (cases "x \<in> special")
    case True
    with length_entity[of x] length_escapeXml[of xs] show ?thesis
      by (auto simp: escapeXml_Cons)
  next
    case False
    with Cons.prems have "set xs \<inter> special \<noteq> {}" by auto
    from Cons.IH[OF this] False show ?thesis
      by (simp add: escapeXml_Cons entity_not_special)
  qed
qed

lemma escapeXml_keeps_special:
  "set s \<inter> special \<noteq> {} \<Longrightarrow> set (escapeXml s) \<inter> special \<noteq> {}"
proof -
  assume "set s \<inter> special \<noteq> {}"
  then obtain c where c: "c \<in> set s" "c \<in> special" by auto
  then have "CHR ''&'' \<in> set (entity c)"
    using entity_special[of c] by (cases "entity c") auto
  with c have "CHR ''&'' \<in> set (escapeXml s)"
    by (auto simp: escapeXml_entity)
  moreover have "CHR ''&'' \<in> special" by (simp add: special_def)
  ultimately show ?thesis by auto
qed


text \<open>
  C2. \<open>escapeXml\<close> applies the five substitutions in the order \<^verbatim>\<open>&\<close>, \<^verbatim>\<open><\<close>, \<^verbatim>\<open>>\<close>,
  double quote, single quote. The result is the input with every character replaced by its
  entity in one pass, so nothing produced by an earlier substitution is escaped again. The
  output has no \<^verbatim>\<open><\<close>, \<^verbatim>\<open>>\<close>, double quote or single quote; every \<^verbatim>\<open>&\<close> in it begins
  one of the five entities; and each entity occurs as often as its character occurs in the
  input.
\<close>

theorem escapeXml_substitutions:
  "escapeXml s = fold (\<lambda>(c, r). replace_all c r) substitutions s
   \<and> escapeXml s = concat (map entity s)
   \<and> set (escapeXml s) \<inter> {CHR ''<'', CHR ''>'', CHR 0x22, CHR 0x27} = {}
   \<and> (\<forall>i<length (escapeXml s). escapeXml s ! i = CHR ''&'' \<longrightarrow>
          (\<exists>c\<in>special. take (length (entity c)) (drop i (escapeXml s)) = entity c))
   \<and> (\<forall>c\<in>special. count_occ (entity c) (escapeXml s) = count_list s c)"
proof (intro conjI allI impI ballI)
  show "escapeXml s = fold (\<lambda>(c, r). replace_all c r) substitutions s"
    by (simp add: escapeXml_def substitutions_def)
  show "escapeXml s = concat (map entity s)"
    by (rule escapeXml_entity)
  show "set (escapeXml s) \<inter> {CHR ''<'', CHR ''>'', CHR 0x22, CHR 0x27} = {}"
    by (rule escapeXml_no_markup)
next
  fix i assume "i < length (escapeXml s)" "escapeXml s ! i = CHR ''&''"
  then show "\<exists>c\<in>special. take (length (entity c)) (drop i (escapeXml s)) = entity c"
    by (rule escapeXml_amp)
next
  fix c :: char assume "c \<in> special"
  then show "count_occ (entity c) (escapeXml s) = count_list s c"
    by (rule count_occ_escapeXml)
qed

theorem escapeXml_substitutions_witness:
  "escapeXml ''a&<'' = ''a&amp;&lt;''
   \<and> (1::nat) < length (escapeXml ''a&<'') \<and> escapeXml ''a&<'' ! 1 = CHR ''&''
   \<and> (\<exists>c\<in>special. take (length (entity c)) (drop 1 (escapeXml ''a&<'')) = entity c)
   \<and> CHR ''<'' \<in> special
   \<and> count_occ ''&lt;'' (escapeXml ''a&<'') = 1"
proof -
  note t = escapeXml_substitutions[of "''a&<''"]
  from t have "escapeXml ''a&<'' = concat (map entity ''a&<'')"
    by (rule conjunct2[THEN conjunct1])
  then have e: "escapeXml ''a&<'' = ''a&amp;&lt;''"
    by (simp add: entity_def)
  have i: "(1::nat) < length (escapeXml ''a&<'')" "escapeXml ''a&<'' ! 1 = CHR ''&''"
    by (simp_all add: e)
  from t have "\<forall>i<length (escapeXml ''a&<''). escapeXml ''a&<'' ! i = CHR ''&'' \<longrightarrow>
          (\<exists>c\<in>special. take (length (entity c)) (drop i (escapeXml ''a&<'')) = entity c)"
    by blast
  with i have a: "\<exists>c\<in>special. take (length (entity c)) (drop 1 (escapeXml ''a&<'')) = entity c"
    by blast
  have s: "CHR ''<'' \<in> special" by (simp add: special_def)
  from t have "\<forall>c\<in>special. count_occ (entity c) (escapeXml ''a&<'') = count_list ''a&<'' c"
    by blast
  with s have "count_occ (entity CHR ''<'') (escapeXml ''a&<'') = count_list ''a&<'' CHR ''<''"
    by blast
  then have c: "count_occ ''&lt;'' (escapeXml ''a&<'') = 1"
    by (simp add: entity_def)
  from e i a s c show ?thesis by blast
qed


text \<open>
  C8. \<open>escapeXml\<close> is not idempotent: escaping \<^verbatim>\<open>&\<close> twice gives \<^verbatim>\<open>&amp;amp;\<close>, not
  \<^verbatim>\<open>&amp;\<close>. The second application changes the result exactly when the input holds
  one of the five characters.
\<close>

theorem escapeXml_not_idempotent:
  "(\<exists>s. escapeXml (escapeXml s) \<noteq> escapeXml s)
   \<and> escapeXml (escapeXml ''&'') = ''&amp;amp;'' \<and> escapeXml ''&'' = ''&amp;''
   \<and> (escapeXml (escapeXml s) = escapeXml s) = (set s \<inter> special = {})"
proof -
  have one: "escapeXml ''&'' = ''&amp;''"
    by (simp add: escapeXml_entity entity_def)
  have two: "escapeXml (escapeXml ''&'') = ''&amp;amp;''"
    by (simp add: one) (simp add: escapeXml_entity entity_def)
  from one two have ex: "\<exists>s. escapeXml (escapeXml s) \<noteq> escapeXml s"
    by (intro exI[of _ "''&''"]) simp
  have iff: "(escapeXml (escapeXml s) = escapeXml s) = (set s \<inter> special = {})"
  proof (cases "set s \<inter> special = {}")
    case True
    then show ?thesis by (simp add: escapeXml_plain)
  next
    case False
    from length_escapeXml_special[OF escapeXml_keeps_special[OF False]]
    have "escapeXml (escapeXml s) \<noteq> escapeXml s" by auto
    with False show ?thesis by simp
  qed
  from ex one two iff show ?thesis by blast
qed

section \<open>Properties of the encoders\<close>

lemma bind_exn_Inr [simp]: "bind_exn (Inr v) f = f v"
  by (simp add: bind_exn_def)

lemma bind_exn_Inl [simp]: "bind_exn (Inl e) f = Inl e"
  by (simp add: bind_exn_def)

lemma bind_exn_eq_Inr: "(bind_exn m f = Inr r) = (\<exists>v. m = Inr v \<and> f v = Inr r)"
  by (cases m) simp_all

lemma read_file_loop_step:
  assumes "is_FileRef v f"
  shows "read_file_loop h acc (v # vs) = read_file_loop h (acc @ file_block f) vs"
proof (cases "line_range f")
  case None
  with assms show ?thesis by (simp add: is_FileRef_def file_block_def)
next
  case (Some r)
  with assms show ?thesis by (cases "r = []") (simp_all add: is_FileRef_def file_block_def)
qed

lemma read_file_loop_blocks:
  "list_all2 is_FileRef vs fs \<Longrightarrow>
     read_file_loop h acc vs = Inr (acc @ concat (map file_block fs))"
proof (induction vs arbitrary: acc fs)
  case Nil
  then show ?case by simp
next
  case (Cons v vs)
  then obtain f fs' where fs: "fs = f # fs'" "is_FileRef v f" "list_all2 is_FileRef vs fs'"
    by (cases fs) auto
  from fs(2) have "read_file_loop h acc (v # vs) = read_file_loop h (acc @ file_block f) vs"
    by (rule read_file_loop_step)
  also have "\<dots> = Inr ((acc @ file_block f) @ concat (map file_block fs'))"
    by (rule Cons.IH[OF fs(3)])
  finally show ?case by (simp add: fs(1))
qed

lemma escapeXml_no_lt: "CHR ''<'' \<notin> set (escapeXml s)"
  using escapeXml_no_markup[of s] by auto

lemma count_occ_escaped:
  "pat \<noteq> [] \<Longrightarrow> hd pat = CHR ''<'' \<Longrightarrow> count_occ pat (escapeXml s @ r) = count_occ pat r"
  by (rule count_occ_skip) (simp_all add: escapeXml_no_lt)

lemma count_file_block:
  "count_occ ''<file>'' (file_block f @ r) = Suc (count_occ ''<file>'' r)"
proof -
  have e: "count_occ ''<file>'' (escapeXml s @ t) = count_occ ''<file>'' t" for s t
    by (rule count_occ_escaped) simp_all
  show ?thesis
    by (cases "line_range f") (simp_all add: file_block_def e)
qed

lemma count_file_blocks:
  "count_occ ''<file>'' (concat (map file_block fs) @ r) = length fs + count_occ ''<file>'' r"
  by (induction fs) (simp_all add: count_file_block del: count_occ.simps)

lemma count_read_file_xml: "count_occ ''<file>'' (read_file_xml fs) = length fs"
proof -
  have "count_occ ''<file>'' (read_file_xml fs)
      = count_occ ''<file>'' (concat (map file_block fs) @ ''</args>\<newline></read_file>'')"
    by (simp add: read_file_xml_def)
  then show ?thesis by (simp add: count_file_blocks)
qed

text \<open>
  C3. For a \<^verbatim>\<open>read_file\<close> invocation whose \<^verbatim>\<open>args.file\<close> is an array of
  file entries, or a single entry (taken as a one-element sequence), the encoder returns
  the \<^verbatim>\<open><read_file>\<close>/\<^verbatim>\<open><args>\<close> wrapper around one \<^verbatim>\<open><file>\<close> block per entry, in input
  order, for any number of entries; each block holds \<^verbatim>\<open><path>\<close> with the escaped path and,
  when the entry has a non-empty \<^verbatim>\<open>line_range\<close>, \<^verbatim>\<open><line_range>\<close> with the escaped value.
  The output holds as many \<^verbatim>\<open><file>\<close> tags as there are entries.
\<close>

theorem convertReadFileToXml_blocks:
  "get_prop toolUse ''args'' = Inr args \<and> get_prop args ''file'' = Inr file
   \<and> (file = JArr vs \<and> list_all2 is_FileRef vs fs \<or> is_FileRef file f \<and> fs = [f])
   \<longrightarrow> convertReadFileToXml h toolUse = Inr (read_file_xml fs)
       \<and> count_occ ''<file>'' (read_file_xml fs) = length fs"
proof (intro impI conjI)
  assume a: "get_prop toolUse ''args'' = Inr args \<and> get_prop args ''file'' = Inr file
   \<and> (file = JArr vs \<and> list_all2 is_FileRef vs fs \<or> is_FileRef file f \<and> fs = [f])"
  then have args: "get_prop toolUse ''args'' = Inr args" "get_prop args ''file'' = Inr file"
    by simp_all
  from a have "list_all2 is_FileRef (case file of JArr xs \<Rightarrow> xs | _ \<Rightarrow> [file]) fs"
  proof (elim conjE disjE)
    assume "file = JArr vs" "list_all2 is_FileRef vs fs"
    then show ?thesis by simp
  next
    assume one: "is_FileRef file f" "fs = [f]"
    then have "\<And>xs. file \<noteq> JArr xs" by (auto simp: is_FileRef_def)
    with one show ?thesis by (cases "file") auto
  qed
  then have "read_file_loop h ''<read_file>\<newline><args>\<newline>''
               (case file of JArr xs \<Rightarrow> xs | _ \<Rightarrow> [file])
             = Inr (''<read_file>\<newline><args>\<newline>'' @ concat (map file_block fs))"
    by (rule read_file_loop_blocks)
  with args show "convertReadFileToXml h toolUse = Inr (read_file_xml fs)"
    by (simp add: convertReadFileToXml_def read_file_xml_def)
next
  show "count_occ ''<file>'' (read_file_xml fs) = length fs"
    by (rule count_read_file_xml)
qed

text \<open>The test "should convert multiple files in read_file to XML", in full.\<close>

theorem convertReadFileToXml_blocks_witness:
  "convertReadFileToXml sample_host two_files
     = Inr (''<read_file>\<newline><args>\<newline>''
            @ ''  <file>\<newline>    <path>src/file1.ts</path>\<newline>  </file>\<newline>''
            @ ''  <file>\<newline>    <path>src/file2.ts</path>\<newline>''
            @ ''    <line_range>10-20</line_range>\<newline>  </file>\<newline>''
            @ ''</args>\<newline></read_file>'')
   \<and> convertReadFileToXml sample_host one_file
     = Inr (''<read_file>\<newline><args>\<newline>''
            @ ''  <file>\<newline>    <path>src/app.ts</path>\<newline>''
            @ ''    <line_range>1-50</line_range>\<newline>  </file>\<newline>''
            @ ''</args>\<newline></read_file>'')"
proof -
  let ?f1 = "\<lparr>path = ''src/file1.ts'', line_range = None\<rparr>"
  let ?f2 = "\<lparr>path = ''src/file2.ts'', line_range = Some ''10-20''\<rparr>"
  let ?vs = "[JObj [(''path'', JStr ''src/file1.ts'')],
              JObj [(''path'', JStr ''src/file2.ts''), (''line_range'', JStr ''10-20'')]]"
  let ?f = "\<lparr>path = ''src/app.ts'', line_range = Some ''1-50''\<rparr>"
  let ?v = "JObj [(''path'', JStr ''src/app.ts''), (''line_range'', JStr ''1-50'')] :: int js"
  have a: "get_prop two_files ''args'' = Inr (JObj [(''file'', JArr ?vs)])
    \<and> get_prop (JObj [(''file'', JArr ?vs)]) ''file'' = Inr (JArr ?vs :: int js)
    \<and> ((JArr ?vs :: int js) = JArr ?vs \<and> list_all2 is_FileRef ?vs [?f1, ?f2]
        \<or> is_FileRef (JArr ?vs :: int js) ?f1 \<and> [?f1, ?f2] = [?f1])"
    by (simp add: two_files_def is_FileRef_def)
  from convertReadFileToXml_blocks[of two_files "JObj [(''file'', JArr ?vs)]" "JArr ?vs" ?vs
      "[?f1, ?f2]" ?f1 sample_host, THEN mp, OF a]
  have 1: "convertReadFileToXml sample_host two_files = Inr (read_file_xml [?f1, ?f2])"
    by (rule conjunct1)
  have b: "get_prop one_file ''args'' = Inr (JObj [(''file'', ?v)])
    \<and> get_prop (JObj [(''file'', ?v)]) ''file'' = Inr ?v
    \<and> (?v = JArr [] \<and> list_all2 is_FileRef ([] :: int js list) [?f]
        \<or> is_FileRef ?v ?f \<and> [?f] = [?f])"
    by (simp add: one_file_def is_FileRef_def)
  from convertReadFileToXml_blocks[of one_file "JObj [(''file'', ?v)]" ?v "[]"
      "[?f]" ?f sample_host, THEN mp, OF b]
  have 2: "convertReadFileToXml sample_host one_file = Inr (read_file_xml [?f])"
    by (rule conjunct1)
  from 1 2 show ?thesis
    by (simp add: read_file_xml_def file_block_def escapeXml_entity entity_def)
qed

text \<open>
  An entry whose \<^verbatim>\<open>line_range\<close> is present and is the empty string gets no
  \<^verbatim>\<open><line_range>\<close> element: the guard \<^verbatim>\<open>if (file.line_range)\<close> tests truthiness.
\<close>

theorem convertReadFileToXml_empty_line_range:
  "get_prop (JObj [(''path'', JStr ''a''), (''line_range'', JStr [])] :: int js) ''line_range''
     = Inr (JStr [])
   \<and> convertReadFileToXml sample_host empty_range_file
     = Inr (''<read_file>\<newline><args>\<newline>''
            @ ''  <file>\<newline>    <path>a</path>\<newline>  </file>\<newline>''
            @ ''</args>\<newline></read_file>'')
   \<and> \<not> contains (''<read_file>\<newline><args>\<newline>''
            @ ''  <file>\<newline>    <path>a</path>\<newline>  </file>\<newline>''
            @ ''</args>\<newline></read_file>'') ''<line_range>''"
  by (simp add: convertReadFileToXml_def empty_range_file_def escapeXml_entity entity_def
      contains_def)

lemma contains_recursive: "contains (list_files_xml p r) ''<recursive>'' = (r \<noteq> None)"
proof -
  have e: "count_occ ''<recursive>'' (escapeXml s @ t) = count_occ ''<recursive>'' t" for s t
    by (rule count_occ_escaped) simp_all
  show ?thesis
    by (cases r) (simp_all add: contains_def list_files_xml_def e)
qed

lemma convertListFilesToXml_typed:
  assumes "get_prop toolUse ''path'' = Inr (JStr p)"
    and "get_prop toolUse ''recursive'' = Inr (case r of None \<Rightarrow> JUndefined | Some b \<Rightarrow> JBool b)"
  shows "convertListFilesToXml h toolUse = Inr (list_files_xml p r)"
  using assms by (cases r) (simp_all add: convertListFilesToXml_def list_files_xml_def)

lemma list_files_scenario_result:
  "convertJsonToXml h list_files_scenario
     = \<lparr>success = True,
        xml = Some (JStr (''<list_files>\<newline><path>src</path>\<newline>''
                           @ ''<recursive>true</recursive>\<newline></list_files>'')),
        error = None, reasoning = Some JUndefined, thinking = Some JUndefined\<rparr>"
  by (simp add: convertJsonToXml_def convertJsonToXml_try_def convert_parsed_def
      response_reasoning_def convert_switch_def
      list_files_scenario_def get_opt_def or_else_def convertSingleToolToXml_def
      convertListFilesToXml_def escapeXml_entity entity_def)

text \<open>
  C7. For a \<^verbatim>\<open>list_files\<close> invocation with a string path and an optional boolean
  \<^verbatim>\<open>recursive\<close>, the encoder writes \<^verbatim>\<open><path>\<close> with the escaped path, and writes
  \<^verbatim>\<open><recursive>\<close> exactly when the field is set, \<^verbatim>\<open>false\<close> included, as the literal
  \<^verbatim>\<open>true\<close> or \<^verbatim>\<open>false\<close>. The scenario of the specification converts successfully, to the
  document with \<^verbatim>\<open><list_files>\<close>, \<^verbatim>\<open><path>src</path>\<close> and \<^verbatim>\<open><recursive>true</recursive>\<close>.
\<close>

theorem convertListFilesToXml_recursive:
  "(get_prop toolUse ''path'' = Inr (JStr p)
    \<and> get_prop toolUse ''recursive'' = Inr (case r of None \<Rightarrow> JUndefined | Some b \<Rightarrow> JBool b)
    \<longrightarrow> convertListFilesToXml h toolUse = Inr (list_files_xml p r)
        \<and> contains (list_files_xml p r) ''<recursive>'' = (r \<noteq> None))
   \<and> convertJsonToXml h list_files_scenario
       = \<lparr>success = True,
          xml = Some (JStr (''<list_files>\<newline><path>src</path>\<newline>''
                             @ ''<recursive>true</recursive>\<newline></list_files>'')),
          error = None, reasoning = Some JUndefined, thinking = Some JUndefined\<rparr>"
  using convertListFilesToXml_typed[of toolUse p r h] contains_recursive[of p r]
    list_files_scenario_result[of h]
  by blast

theorem convertListFilesToXml_recursive_witness:
  "convertListFilesToXml sample_host list_tool
     = Inr (''<list_files>\<newline><path>src</path>\<newline>''
            @ ''<recursive>false</recursive>\<newline></list_files>'')
   \<and> convertListFilesToXml sample_host
     (JObj [(''tool'', JStr ''list_files''), (''path'', JStr ''a<b'')])
     = Inr ''<list_files>\<newline><path>a&lt;b</path>\<newline></list_files>''"
proof -
  let ?b = "JObj [(''tool'', JStr ''list_files''), (''path'', JStr ''a<b'')] :: int js"
  have a: "get_prop list_tool ''path'' = Inr (JStr ''src'')
    \<and> get_prop list_tool ''recursive''
        = Inr (case Some False of None \<Rightarrow> JUndefined | Some b \<Rightarrow> JBool b)"
    by (simp add: list_tool_def)
  from convertListFilesToXml_recursive[of list_tool "''src''" "Some False" sample_host,
      THEN conjunct1, THEN mp, OF a]
  have 1: "convertListFilesToXml sample_host list_tool = Inr (list_files_xml ''src'' (Some False))"
    by (rule conjunct1)
  have b: "get_prop ?b ''path'' = Inr (JStr ''a<b'')
    \<and> get_prop ?b ''recursive'' = Inr (case None of None \<Rightarrow> JUndefined | Some b \<Rightarrow> JBool b)"
    by simp
  from convertListFilesToXml_recursive[of ?b "''a<b''" None sample_host,
      THEN conjunct1, THEN mp, OF b]
  have 2: "convertListFilesToXml sample_host ?b = Inr (list_files_xml ''a<b'' None)"
    by (rule conjunct1)
  from 1 2 show ?thesis
    by (simp add: list_files_xml_def escapeXml_entity entity_def)
qed

lemma map_exn_all:
  "list_all2 (\<lambda>t x. f t = Inr x) ts xs \<Longrightarrow> map_exn f ts = Inr xs"
proof (induction ts arbitrary: xs)
  case Nil
  then show ?case by simp
next
  case (Cons t ts)
  then obtain y ys where "xs = y # ys" "f t = Inr y" "list_all2 (\<lambda>t x. f t = Inr x) ts ys"
    by (cases xs) auto
  with Cons.IH[of ys] show ?case by simp
qed

text \<open>
  C5. When every invocation of a sequence encodes, the multiple-tools encoder returns the
  encodings joined with two newline characters between consecutive fragments, in input
  order; for two invocations that is the first encoding, two newlines, the second encoding.
\<close>

theorem convertMultipleToolsToXml_join:
  "(list_all2 (\<lambda>t x. convertSingleToolToXml h t = Inr x) tools xs
    \<longrightarrow> convertMultipleToolsToXml h (JArr tools) = Inr (join ''\<newline>\<newline>'' xs))
   \<and> (convertSingleToolToXml h tool1 = Inr x1 \<and> convertSingleToolToXml h tool2 = Inr x2
      \<longrightarrow> convertMultipleToolsToXml h (JArr [tool1, tool2])
          = Inr (x1 @ ''\<newline>\<newline>'' @ x2))"
proof (intro conjI impI)
  assume "list_all2 (\<lambda>t x. convertSingleToolToXml h t = Inr x) tools xs"
  then have "map_exn (convertSingleToolToXml h) tools = Inr xs"
    by (rule map_exn_all)
  then show "convertMultipleToolsToXml h (JArr tools) = Inr (join ''\<newline>\<newline>'' xs)"
    by simp
next
  assume "convertSingleToolToXml h tool1 = Inr x1 \<and> convertSingleToolToXml h tool2 = Inr x2"
  then show "convertMultipleToolsToXml h (JArr [tool1, tool2])
      = Inr (x1 @ ''\<newline>\<newline>'' @ x2)"
    by simp
qed

text \<open>The two invocations of the test "should convert multiple tools to XML".\<close>

theorem convertMultipleToolsToXml_join_witness:
  "convertMultipleToolsToXml sample_host (JArr [search_tool, list_tool])
     = Inr (''<search_files>\<newline><path>src</path>\<newline><regex>TODO</regex>\<newline>''
            @ ''</search_files>'' @ ''\<newline>\<newline>''
            @ ''<list_files>\<newline><path>src</path>\<newline>''
            @ ''<recursive>false</recursive>\<newline></list_files>'')
   \<and> convertMultipleToolsToXml sample_host (JArr [list_tool, search_tool, list_tool])
     = Inr (''<list_files>\<newline><path>src</path>\<newline>''
            @ ''<recursive>false</recursive>\<newline></list_files>'' @ ''\<newline>\<newline>''
            @ ''<search_files>\<newline><path>src</path>\<newline><regex>TODO</regex>\<newline>''
            @ ''</search_files>'' @ ''\<newline>\<newline>''
            @ ''<list_files>\<newline><path>src</path>\<newline>''
            @ ''<recursive>false</recursive>\<newline></list_files>'')"
proof -
  let ?x1 = "''<search_files>\<newline><path>src</path>\<newline><regex>TODO</regex>\<newline>''
            @ ''</search_files>''"
  let ?x2 = "''<list_files>\<newline><path>src</path>\<newline>''
            @ ''<recursive>false</recursive>\<newline></list_files>''"
  have a: "convertSingleToolToXml sample_host search_tool = Inr ?x1
      \<and> convertSingleToolToXml sample_host list_tool = Inr ?x2"
    by (simp add: convertSingleToolToXml_def convertSearchFilesToXml_def
        convertListFilesToXml_def search_tool_def list_tool_def escapeXml_entity entity_def)
  then have b: "list_all2 (\<lambda>t x. convertSingleToolToXml sample_host t = Inr x)
      [list_tool, search_tool, list_tool] [?x2, ?x1, ?x2]"
    by simp
  note t = convertMultipleToolsToXml_join[of sample_host "[list_tool, search_tool, list_tool]"
      "[?x2, ?x1, ?x2]" search_tool ?x1 list_tool ?x2]
  from t[THEN conjunct2, THEN mp, OF a]
  have 1: "convertMultipleToolsToXml sample_host (JArr [search_tool, list_tool])
      = Inr (?x1 @ ''\<newline>\<newline>'' @ ?x2)" .
  from t[THEN conjunct1, THEN mp, OF b]
  have 2: "convertMultipleToolsToXml sample_host (JArr [list_tool, search_tool, list_tool])
      = Inr (join ''\<newline>\<newline>'' [?x2, ?x1, ?x2])" .
  from 1 2 show ?thesis by simp
qed

section \<open>Properties of the orchestrator\<close>

lemma get_opt_total: "\<exists>x. get_opt v k = Inr x"
  by (cases v) (simp_all add: get_opt_def)

lemma response_reasoning_JObj: "\<exists>re. response_reasoning h (JObj kvs) = Inr re"
proof -
  obtain r1 where r1: "get_opt (case map_of kvs ''single_tool'' of None \<Rightarrow> JUndefined | Some v \<Rightarrow> v)
      ''reasoning'' = Inr r1"
    using get_opt_total by blast
  obtain r2 where "get_opt (case map_of kvs ''multiple_tools'' of None \<Rightarrow> JUndefined | Some v \<Rightarrow> v)
      ''reasoning'' = Inr r2"
    using get_opt_total by blast
  with r1 show ?thesis
    by (simp add: response_reasoning_def or_else_def)
qed

lemma get_prop_JStr_object: "get_prop v k = Inr (JStr s) \<Longrightarrow> \<exists>kvs. v = JObj kvs"
  by (cases v) simp_all

lemma convert_parsed_JObj:
  "\<exists>re. convert_parsed h (JObj kvs)
     = convert_switch h (JObj kvs) (case map_of kvs ''thinking'' of None \<Rightarrow> JUndefined | Some v \<Rightarrow> v) re"
proof -
  obtain re where "response_reasoning h (JObj kvs) = Inr re"
    using response_reasoning_JObj by blast
  then show ?thesis by (intro exI[of _ re]) (simp add: convert_parsed_def)
qed

lemma result_ok_failure: "result_ok (failure m)"
  by (simp add: result_ok_def failure_def)

lemma or_else_defined: "or_else h t (Inr (JStr [])) = Inr x \<Longrightarrow> x \<noteq> JUndefined"
  by (auto simp: or_else_def split: if_splits)

lemma convert_switch_ok:
  assumes "convert_switch h response th re = Inr r"
  shows "result_ok r"
proof -
  from assms obtain rt where rt: "get_prop response ''response_type'' = Inr rt"
    by (auto simp: convert_switch_def bind_exn_eq_Inr)
  define tool_result where "tool_result x =
    \<lparr>success = True, xml = Some (JStr x), error = None, reasoning = Some re,
       thinking = Some th\<rparr>" for x
  have tool: "result_ok (tool_result x)" for x
    by (simp add: tool_result_def result_ok_def)
  consider "rt = JStr ''text_only''" | "rt = JStr ''single_tool''" | "rt = JStr ''multiple_tools''"
    | "rt \<noteq> JStr ''text_only''" "rt \<noteq> JStr ''single_tool''" "rt \<noteq> JStr ''multiple_tools''"
    by blast
  then show ?thesis
  proof cases
    case 1
    with assms rt obtain t x where "or_else h t (Inr (JStr [])) = Inr x"
      "r = \<lparr>success = True, xml = Some x, error = None, reasoning = None,
            thinking = Some th\<rparr>"
      by (auto simp: convert_switch_def bind_exn_eq_Inr)
    with or_else_defined[of h t x] show ?thesis
      by (simp add: result_ok_def)
  next
    case 2
    with assms rt have "(\<exists>m. r = failure m) \<or> (\<exists>x. r = tool_result x)"
      by (auto simp: convert_switch_def bind_exn_eq_Inr tool_result_def split: if_splits)
    then show ?thesis using tool by (auto simp: result_ok_failure)
  next
    case 3
    with assms rt have "(\<exists>m. r = failure m) \<or> (\<exists>x. r = tool_result x)"
      by (auto simp: convert_switch_def bind_exn_eq_Inr tool_result_def split: if_splits)
    then show ?thesis using tool by (auto simp: result_ok_failure)
  next
    case 4
    with assms rt show ?thesis
      by (auto simp: convert_switch_def bind_exn_eq_Inr result_ok_failure)
  qed
qed

lemma convert_parsed_ok:
  assumes "convert_parsed h v = Inr r"
  shows "result_ok r"
proof (cases "\<not> truthy h v \<or> typeof v \<noteq> ''object''")
  case True
  with assms show ?thesis by (auto simp: convert_parsed_def result_ok_failure)
next
  case False
  with assms obtain th re where "convert_switch h v th re = Inr r"
    by (auto simp: convert_parsed_def bind_exn_eq_Inr)
  then show ?thesis by (rule convert_switch_ok)
qed

text \<open>
  C9. Whatever the input, the result of \<open>convertJsonToXml\<close> has a defined \<^verbatim>\<open>xml\<close> exactly
  when \<^verbatim>\<open>success\<close> is true, and a failure result carries an error message and neither
  \<^verbatim>\<open>xml\<close>, nor \<^verbatim>\<open>thinking\<close>, nor \<^verbatim>\<open>reasoning\<close>.
\<close>

theorem convertJsonToXml_result_shape:
  "is_defined (xml (convertJsonToXml h input)) = success (convertJsonToXml h input)
   \<and> (\<not> success (convertJsonToXml h input) \<longrightarrow>
        error (convertJsonToXml h input) \<noteq> None \<and> xml (convertJsonToXml h input) = None
        \<and> thinking (convertJsonToXml h input) = None
        \<and> reasoning (convertJsonToXml h input) = None)"
proof -
  have "result_ok (convertJsonToXml h input)"
  proof (cases "convertJsonToXml_try h input")
    case (Inl e)
    then show ?thesis by (simp add: convertJsonToXml_def result_ok_failure)
  next
    case (Inr r)
    then have "result_ok r"
      by (auto simp: convertJsonToXml_try_def result_ok_failure convert_parsed_ok
          split: js.splits sum.splits)
    with Inr show ?thesis by (simp add: convertJsonToXml_def)
  qed
  then show ?thesis by (simp add: result_ok_def)
qed

theorem convertJsonToXml_result_shape_witness:
  "\<not> success (convertJsonToXml sample_host (JNum 5))
   \<and> error (convertJsonToXml sample_host (JNum 5))
       = Some ''Invalid input: expected object or JSON string''
   \<and> xml (convertJsonToXml sample_host (JNum 5)) = None
   \<and> thinking (convertJsonToXml sample_host (JNum 5)) = None
   \<and> reasoning (convertJsonToXml sample_host (JNum 5)) = None"
proof -
  have r: "convertJsonToXml sample_host (JNum 5)
      = failure ''Invalid input: expected object or JSON string''"
    by (simp add: convertJsonToXml_def convertJsonToXml_try_def convert_parsed_def)
  then have "\<not> success (convertJsonToXml sample_host (JNum 5))"
    by (simp add: failure_def)
  with convertJsonToXml_result_shape[of sample_host "JNum 5"] r show ?thesis
    by (simp add: failure_def)
qed

lemma convertSingleToolToXml_unknown:
  assumes "get_prop toolUse ''tool'' = Inr tool" "tool \<notin> JStr ` set known_tools"
  shows "convertSingleToolToXml h toolUse = Inl (unknown_tool_exn h tool)"
proof -
  from assms(2) have "tool \<noteq> JStr ''read_file''" "tool \<noteq> JStr ''search_files''"
    "tool \<noteq> JStr ''list_files''" "tool \<noteq> JStr ''list_code_definition_names''"
    "tool \<noteq> JStr ''write_to_file''" "tool \<noteq> JStr ''apply_diff''"
    "tool \<noteq> JStr ''fetch_instructions''"
    by (auto simp: known_tools_def)
  with assms(1) show ?thesis
    by (cases "toString h tool") (simp_all add: convertSingleToolToXml_def unknown_tool_exn_def)
qed

lemma map_exn_first_failure:
  assumes "list_all2 (\<lambda>t x. f t = Inr x) pre xs" "f t = Inl e"
  shows "map_exn f (pre @ t # rest) = Inl e"
  using assms
proof (induction pre arbitrary: xs)
  case Nil
  then show ?case by simp
next
  case (Cons p pre)
  then obtain y ys where "xs = y # ys" "f p = Inr y" "list_all2 (\<lambda>t x. f t = Inr x) pre ys"
    by (cases xs) auto
  with Cons.IH[of ys] Cons.prems(2) show ?case by simp
qed

lemma convert_switch_single:
  assumes "get_prop response ''response_type'' = Inr (JStr ''single_tool'')"
    and "get_prop response ''single_tool'' = Inr st" "get_opt st ''tool_use'' = Inr tu"
    and "truthy h tu"
  shows "convert_switch h response th re =
     bind_exn (convertSingleToolToXml h tu) (\<lambda>x.
       Inr \<lparr>success = True, xml = Some (JStr x), error = None,
            reasoning = Some re, thinking = Some th\<rparr>)"
  using assms by (simp add: convert_switch_def)

lemma convert_switch_multiple:
  assumes "get_prop response ''response_type'' = Inr (JStr ''multiple_tools'')"
    and "get_prop response ''multiple_tools'' = Inr mt" "get_opt mt ''tools'' = Inr (JArr ts)"
    and "ts \<noteq> []"
  shows "convert_switch h response th re =
     bind_exn (convertMultipleToolsToXml h (JArr ts)) (\<lambda>x.
       Inr \<lparr>success = True, xml = Some (JStr x), error = None,
            reasoning = Some re, thinking = Some th\<rparr>)"
  using assms by (simp add: convert_switch_def)

lemma convertJsonToXml_object_throws:
  assumes "get_prop response ''response_type'' = Inr (JStr rt)"
    and "\<And>th re. convert_switch h response th re = Inl e"
  shows "convertJsonToXml h response = failure (''Conversion error: '' @ message h e)"
proof -
  from assms(1) obtain kvs where kvs: "response = JObj kvs"
    using get_prop_JStr_object by blast
  obtain re where "convert_parsed h (JObj kvs)
     = convert_switch h (JObj kvs) (case map_of kvs ''thinking'' of None \<Rightarrow> JUndefined | Some v \<Rightarrow> v) re"
    using convert_parsed_JObj by blast
  with assms(2) kvs have "convert_parsed h response = Inl e" by simp
  with kvs show ?thesis
    by (simp add: convertJsonToXml_def convertJsonToXml_try_def)
qed

lemma convertJsonToXml_text:
  "JSON_parse h text = Inr (JObj kvs) \<Longrightarrow>
     convertJsonToXml h (JStr text) = convertJsonToXml h (JObj kvs)"
  by (simp add: convertJsonToXml_def convertJsonToXml_try_def)

text \<open>
  C1. \<open>convertJsonToXml\<close> is a total function into results: whatever the \<^verbatim>\<open>try\<close> block
  throws becomes a failure result with the message \<^verbatim>\<open>Conversion error: ...\<close>, and a text
  that does not parse becomes a failure result too. For an invocation whose \<^verbatim>\<open>tool\<close> tag
  is none of the seven kinds the dispatcher throws (\<^verbatim>\<open>Unknown tool type: ...\<close>), and the
  orchestrator returns \<^verbatim>\<open>success = false\<close> with that message, on the single-tool path and
  on the multiple-tools path when the invocations in front of it encode.
\<close>

theorem convertJsonToXml_catches:
  "(convertJsonToXml_try h input = Inl e
      \<longrightarrow> convertJsonToXml h input = failure (''Conversion error: '' @ message h e))
   \<and> (JSON_parse h text = Inl m
      \<longrightarrow> convertJsonToXml h (JStr text) = failure (''Failed to parse JSON string: '' @ m))
   \<and> (get_prop toolUse ''tool'' = Inr tool \<and> tool \<notin> JStr ` set known_tools
      \<longrightarrow> convertSingleToolToXml h toolUse = Inl (unknown_tool_exn h tool)
        \<and> (tool = JStr name
             \<longrightarrow> unknown_tool_exn h tool = Error (''Unknown tool type: '' @ name))
        \<and> (get_prop response ''response_type'' = Inr (JStr ''single_tool'')
             \<and> get_prop response ''single_tool'' = Inr st
             \<and> get_opt st ''tool_use'' = Inr toolUse \<and> truthy h toolUse
             \<longrightarrow> convertJsonToXml h response
                 = failure (''Conversion error: '' @ message h (unknown_tool_exn h tool)))
        \<and> (get_prop response ''response_type'' = Inr (JStr ''multiple_tools'')
             \<and> get_prop response ''multiple_tools'' = Inr mt
             \<and> get_opt mt ''tools'' = Inr (JArr (pre @ toolUse # rest))
             \<and> list_all2 (\<lambda>t x. convertSingleToolToXml h t = Inr x) pre xs
             \<longrightarrow> convertJsonToXml h response
                 = failure (''Conversion error: '' @ message h (unknown_tool_exn h tool))))"
proof (intro conjI impI)
  assume "convertJsonToXml_try h input = Inl e"
  then show "convertJsonToXml h input = failure (''Conversion error: '' @ message h e)"
    by (simp add: convertJsonToXml_def)
next
  assume "JSON_parse h text = Inl m"
  then show "convertJsonToXml h (JStr text) = failure (''Failed to parse JSON string: '' @ m)"
    by (simp add: convertJsonToXml_def convertJsonToXml_try_def)
next
  assume "tool = JStr name"
  then show "unknown_tool_exn h tool = Error (''Unknown tool type: '' @ name)"
    by (simp add: unknown_tool_exn_def)
next
  assume "get_prop toolUse ''tool'' = Inr tool \<and> tool \<notin> JStr ` set known_tools"
  then show "convertSingleToolToXml h toolUse = Inl (unknown_tool_exn h tool)"
    by (simp add: convertSingleToolToXml_unknown)
next
  assume u: "get_prop toolUse ''tool'' = Inr tool \<and> tool \<notin> JStr ` set known_tools"
    and r: "get_prop response ''response_type'' = Inr (JStr ''single_tool'')
             \<and> get_prop response ''single_tool'' = Inr st
             \<and> get_opt st ''tool_use'' = Inr toolUse \<and> truthy h toolUse"
  from u have t: "convertSingleToolToXml h toolUse = Inl (unknown_tool_exn h tool)"
    by (simp add: convertSingleToolToXml_unknown)
  from r have "convert_switch h response th re = Inl (unknown_tool_exn h tool)" for th re
    by (simp add: convert_switch_single t)
  with r show "convertJsonToXml h response
      = failure (''Conversion error: '' @ message h (unknown_tool_exn h tool))"
    by (intro convertJsonToXml_object_throws) simp_all
next
  assume u: "get_prop toolUse ''tool'' = Inr tool \<and> tool \<notin> JStr ` set known_tools"
    and r: "get_prop response ''response_type'' = Inr (JStr ''multiple_tools'')
             \<and> get_prop response ''multiple_tools'' = Inr mt
             \<and> get_opt mt ''tools'' = Inr (JArr (pre @ toolUse # rest))
             \<and> list_all2 (\<lambda>t x. convertSingleToolToXml h t = Inr x) pre xs"
  from u have t: "convertSingleToolToXml h toolUse = Inl (unknown_tool_exn h tool)"
    by (simp add: convertSingleToolToXml_unknown)
  with r have "map_exn (convertSingleToolToXml h) (pre @ toolUse # rest)
      = Inl (unknown_tool_exn h tool)"
    by (intro map_exn_first_failure[of _ _ xs]) simp_all
  with r have "convert_switch h response th re = Inl (unknown_tool_exn h tool)" for th re
    by (simp add: convert_switch_multiple)
  with r show "convertJsonToXml h response
      = failure (''Conversion error: '' @ message h (unknown_tool_exn h tool))"
    by (intro convertJsonToXml_object_throws) simp_all
qed

theorem convertJsonToXml_catches_witness:
  "convertSingleToolToXml sample_host
      (JObj [(''tool'', JStr ''delete_file''), (''path'', JStr ''src'')])
     = Inl (Error ''Unknown tool type: delete_file'')
   \<and> convertJsonToXml sample_host unknown_tool_response
     = \<lparr>success = False, xml = None,
        error = Some ''Conversion error: Unknown tool type: delete_file'',
        reasoning = None, thinking = None\<rparr>
   \<and> convertJsonToXml sample_host unknown_tools_response
     = \<lparr>success = False, xml = None,
        error = Some ''Conversion error: Unknown tool type: delete_file'',
        reasoning = None, thinking = None\<rparr>
   \<and> convertJsonToXml sample_host (JStr ''invalid json'')
     = \<lparr>success = False, xml = None,
        error = Some ''Failed to parse JSON string: Unexpected token'',
        reasoning = None, thinking = None\<rparr>
   \<and> convertJsonToXml_try sample_host (JObj [(''response_type'', JObj [(''toString'', JNull)])])
     = Inl (TypeError NoPrimitive)
   \<and> convertJsonToXml sample_host (JObj [(''response_type'', JObj [(''toString'', JNull)])])
     = \<lparr>success = False, xml = None,
        error = Some ''Conversion error: Cannot convert object to primitive value'',
        reasoning = None, thinking = None\<rparr>"
proof -
  let ?tu = "JObj [(''tool'', JStr ''delete_file''), (''path'', JStr ''src'')] :: int js"
  let ?st = "JObj [(''tool_use'', ?tu)]"
  let ?mt = "JObj [(''tools'', JArr [search_tool, ?tu])]"
  let ?x = "''<search_files>\<newline><path>src</path>\<newline><regex>TODO</regex>\<newline>''
            @ ''</search_files>''"
  let ?odd = "JObj [(''response_type'', JObj [(''toString'', JNull)])] :: int js"
  have u: "get_prop ?tu ''tool'' = Inr (JStr ''delete_file'')
      \<and> JStr ''delete_file'' \<notin> (JStr ` set known_tools :: int js set)"
    by (simp add: known_tools_def image_iff)
  have r: "get_prop unknown_tool_response ''response_type'' = Inr (JStr ''single_tool'')
      \<and> get_prop unknown_tool_response ''single_tool'' = Inr ?st
      \<and> get_opt ?st ''tool_use'' = Inr ?tu \<and> truthy sample_host ?tu"
    by (simp add: unknown_tool_response_def get_opt_def)
  have m: "get_prop unknown_tools_response ''response_type'' = Inr (JStr ''multiple_tools'')
      \<and> get_prop unknown_tools_response ''multiple_tools'' = Inr ?mt
      \<and> get_opt ?mt ''tools'' = Inr (JArr ([search_tool] @ ?tu # []))
      \<and> list_all2 (\<lambda>t x. convertSingleToolToXml sample_host t = Inr x) [search_tool] [?x]"
    by (simp add: unknown_tools_response_def get_opt_def convertSingleToolToXml_def
        convertSearchFilesToXml_def search_tool_def escapeXml_entity entity_def)
  have p: "JSON_parse sample_host ''invalid json'' = Inl ''Unexpected token''"
    by (simp add: sample_host_def hello_text_def)
  have o: "convertJsonToXml_try sample_host ?odd = Inl (TypeError NoPrimitive)"
    by (simp add: convertJsonToXml_try_def convert_parsed_def response_reasoning_def
        convert_switch_def get_opt_def or_else_def)
  note t = convertJsonToXml_catches[of sample_host ?odd "TypeError NoPrimitive" "''invalid json''"
      "''Unexpected token''" ?tu "JStr ''delete_file''" "''delete_file''" unknown_tool_response
      ?st JNull "[]" "[]" "[]"]
  note t2 = convertJsonToXml_catches[of sample_host ?odd "TypeError NoPrimitive" "''invalid json''"
      "''Unexpected token''" ?tu "JStr ''delete_file''" "''delete_file''" unknown_tools_response
      ?st ?mt "[search_tool]" "[]" "[?x]"]
  note k = t[THEN conjunct2, THEN conjunct2, THEN mp, OF u]
  note k2 = t2[THEN conjunct2, THEN conjunct2, THEN mp, OF u]
  from k[THEN conjunct2, THEN conjunct1]
  have e: "unknown_tool_exn sample_host (JStr ''delete_file'')
      = Error ''Unknown tool type: delete_file''"
    by simp
  from k have 1: "convertSingleToolToXml sample_host ?tu
      = Inl (unknown_tool_exn sample_host (JStr ''delete_file''))"
    by (rule conjunct1)
  from k[THEN conjunct2, THEN conjunct2, THEN conjunct1, THEN mp, OF r]
  have 2: "convertJsonToXml sample_host unknown_tool_response
      = failure (''Conversion error: ''
          @ message sample_host (unknown_tool_exn sample_host (JStr ''delete_file'')))" .
  from k2[THEN conjunct2, THEN conjunct2, THEN conjunct2, THEN mp, OF m]
  have 3: "convertJsonToXml sample_host unknown_tools_response
      = failure (''Conversion error: ''
          @ message sample_host (unknown_tool_exn sample_host (JStr ''delete_file'')))" .
  from t2[THEN conjunct2, THEN conjunct1, THEN mp, OF p]
  have 4: "convertJsonToXml sample_host (JStr ''invalid json'')
      = failure (''Failed to parse JSON string: '' @ ''Unexpected token'')" .
  from t2[THEN conjunct1, THEN mp, OF o]
  have 5: "convertJsonToXml sample_host ?odd
      = failure (''Conversion error: '' @ message sample_host (TypeError NoPrimitive))" .
  have msg: "message sample_host (TypeError NoPrimitive)
      = ''Cannot convert object to primitive value''"
    by (simp add: message_def sample_host_def)
  have err: "message sample_host (Error ''Unknown tool type: delete_file'')
      = ''Unknown tool type: delete_file''"
    by (simp add: message_def)
  from 1 2 3 4 5 o show ?thesis
    by (simp add: e msg err failure_def)
qed

lemma convert_switch_text_only:
  assumes "get_prop response ''response_type'' = Inr (JStr ''text_only'')"
    and "get_prop response ''text_response'' = Inr t"
  shows "convert_switch h response th re =
     Inr \<lparr>success = True, xml = Some (if truthy h t then t else JStr []), error = None,
          reasoning = None, thinking = Some th\<rparr>"
  using assms by (simp add: convert_switch_def or_else_def)

lemma convertJsonToXml_text_only:
  assumes "get_prop response ''response_type'' = Inr (JStr ''text_only'')"
    and "get_prop response ''text_response'' = Inr t"
    and "get_prop response ''thinking'' = Inr th"
  shows "convertJsonToXml h response =
     \<lparr>success = True, xml = Some (if truthy h t then t else JStr []), error = None,
      reasoning = None, thinking = Some th\<rparr>"
proof -
  from assms(1) obtain kvs where kvs: "response = JObj kvs"
    using get_prop_JStr_object by blast
  obtain re where "convert_parsed h (JObj kvs)
     = convert_switch h (JObj kvs) (case map_of kvs ''thinking'' of None \<Rightarrow> JUndefined | Some v \<Rightarrow> v) re"
    using convert_parsed_JObj by blast
  moreover from assms(3) kvs
  have "(case map_of kvs ''thinking'' of None \<Rightarrow> JUndefined | Some v \<Rightarrow> v) = th"
    by simp
  ultimately have "convert_parsed h response = convert_switch h response th re"
    using kvs by simp
  with assms(1,2) kvs show ?thesis
    by (simp add: convertJsonToXml_def convertJsonToXml_try_def convert_switch_text_only)
qed

text \<open>
  C4. For a response of type \<^verbatim>\<open>text_only\<close> whose \<^verbatim>\<open>text_response\<close> is a string, given as
  a value or as text that parses to it, the result is a success whose \<^verbatim>\<open>xml\<close> is that
  string, unchanged.
\<close>

theorem convertJsonToXml_text_only_verbatim:
  "get_prop response ''response_type'' = Inr (JStr ''text_only'')
   \<and> get_prop response ''text_response'' = Inr (JStr s)
   \<and> get_prop response ''thinking'' = Inr th
   \<longrightarrow> convertJsonToXml h response
         = \<lparr>success = True, xml = Some (JStr s), error = None, reasoning = None,
            thinking = Some th\<rparr>
       \<and> (JSON_parse h text = Inr response
            \<longrightarrow> convertJsonToXml h (JStr text)
                = \<lparr>success = True, xml = Some (JStr s), error = None, reasoning = None,
                   thinking = Some th\<rparr>)"
proof (intro impI conjI)
  assume a: "get_prop response ''response_type'' = Inr (JStr ''text_only'')
   \<and> get_prop response ''text_response'' = Inr (JStr s)
   \<and> get_prop response ''thinking'' = Inr th"
  then have "convertJsonToXml h response =
     \<lparr>success = True, xml = Some (if truthy h (JStr s) then JStr s else JStr []), error = None,
      reasoning = None, thinking = Some th\<rparr>"
    by (intro convertJsonToXml_text_only) simp_all
  then show v: "convertJsonToXml h response
         = \<lparr>success = True, xml = Some (JStr s), error = None, reasoning = None,
            thinking = Some th\<rparr>"
    by (cases "s = []") simp_all
  assume p: "JSON_parse h text = Inr response"
  from a obtain kvs where "response = JObj kvs"
    using get_prop_JStr_object by blast
  with p v show "convertJsonToXml h (JStr text)
                = \<lparr>success = True, xml = Some (JStr s), error = None, reasoning = None,
                   thinking = Some th\<rparr>"
    by (simp add: convertJsonToXml_text)
qed

theorem convertJsonToXml_text_only_verbatim_witness:
  "convertJsonToXml sample_host
     (JObj [(''response_type'', JStr ''text_only''), (''text_response'', JStr ''a < b & c'')])
     = \<lparr>success = True, xml = Some (JStr ''a < b & c''), error = None, reasoning = None,
        thinking = Some JUndefined\<rparr>
   \<and> convertJsonToXml sample_host (JStr hello_text)
     = \<lparr>success = True, xml = Some (JStr ''Hello from JSON string''), error = None,
        reasoning = None, thinking = Some JUndefined\<rparr>"
proof -
  let ?a = "JObj [(''response_type'', JStr ''text_only''),
                  (''text_response'', JStr ''a < b & c'')] :: int js"
  let ?b = "JObj [(''response_type'', JStr ''text_only''),
                  (''text_response'', JStr ''Hello from JSON string'')] :: int js"
  have a: "get_prop ?a ''response_type'' = Inr (JStr ''text_only'')
      \<and> get_prop ?a ''text_response'' = Inr (JStr ''a < b & c'')
      \<and> get_prop ?a ''thinking'' = Inr JUndefined"
    by simp
  have b: "get_prop ?b ''response_type'' = Inr (JStr ''text_only'')
      \<and> get_prop ?b ''text_response'' = Inr (JStr ''Hello from JSON string'')
      \<and> get_prop ?b ''thinking'' = Inr JUndefined"
    by simp
  have p: "JSON_parse sample_host hello_text = Inr ?b"
    by (simp add: sample_host_def)
  note ta = convertJsonToXml_text_only_verbatim[of ?a "''a < b & c''" JUndefined sample_host
      "[]", THEN mp, OF a]
  note tb = convertJsonToXml_text_only_verbatim[of ?b "''Hello from JSON string''" JUndefined
      sample_host hello_text, THEN mp, OF b]
  from ta have 1: "convertJsonToXml sample_host ?a
     = \<lparr>success = True, xml = Some (JStr ''a < b & c''), error = None, reasoning = None,
        thinking = Some JUndefined\<rparr>"
    by (rule conjunct1)
  from tb[THEN conjunct2] p
  have 2: "convertJsonToXml sample_host (JStr hello_text)
     = \<lparr>success = True, xml = Some (JStr ''Hello from JSON string''), error = None,
        reasoning = None, thinking = Some JUndefined\<rparr>"
    by (rule mp)
  from 1 2 show ?thesis by (rule conjI)
qed

section \<open>Properties of the validator\<close>

lemma thrown_with_Inr [simp]: "thrown_with errs (Inr v) = Inr v"
  by (simp add: thrown_with_def)

lemma thrown_with_Inl [simp]: "thrown_with errs (Inl e) = Inl (e, errs)"
  by (simp add: thrown_with_def)

lemma validate_parsed_text_only:
  assumes "get_prop response ''response_type'' = Inr (JStr ''text_only'')"
    and "get_prop response ''text_response'' = Inr t"
  shows "validate_parsed h response =
     Inr \<lparr>valid = truthy h t,
          errors = (if truthy h t then []
                    else [''text_response field is required for text_only response_type''])\<rparr>"
proof -
  from assms(1) obtain kvs where kvs: "response = JObj kvs"
    using get_prop_JStr_object by blast
  with assms show ?thesis
    by (simp add: validate_parsed_def check_response_type_def check_text_only_def)
qed

lemma validateJsonStructure_text_only:
  assumes "get_prop response ''response_type'' = Inr (JStr ''text_only'')"
    and "get_prop response ''text_response'' = Inr t"
  shows "validateJsonStructure h response =
     \<lparr>valid = truthy h t,
      errors = (if truthy h t then []
                else [''text_response field is required for text_only response_type''])\<rparr>"
proof -
  from assms(1) obtain kvs where kvs: "response = JObj kvs"
    using get_prop_JStr_object by blast
  with validate_parsed_text_only[OF assms, of h] show ?thesis
    by (simp add: validateJsonStructure_def validateJsonStructure_try_def)
qed

lemma validateJsonStructure_single_tool:
  assumes "get_prop response ''response_type'' = Inr (JStr ''single_tool'')"
    and "get_prop response ''single_tool'' = Inr st" "truthy h st"
    and "get_prop st ''tool_use'' = Inr tu" "truthy h tu"
  shows "validateJsonStructure h response = \<lparr>valid = True, errors = []\<rparr>"
proof -
  from assms(1) obtain kvs where kvs: "response = JObj kvs"
    using get_prop_JStr_object by blast
  with assms show ?thesis
    by (simp add: validateJsonStructure_def validateJsonStructure_try_def validate_parsed_def
        check_response_type_def check_single_tool_def)
qed

lemma validateJsonStructure_multiple_tools:
  assumes "get_prop response ''response_type'' = Inr (JStr ''multiple_tools'')"
    and "get_prop response ''multiple_tools'' = Inr mt" "truthy h mt"
    and "get_prop mt ''tools'' = Inr (JArr ts)" "ts \<noteq> []"
  shows "validateJsonStructure h response = \<lparr>valid = True, errors = []\<rparr>"
proof -
  from assms(1) obtain kvs where kvs: "response = JObj kvs"
    using get_prop_JStr_object by blast
  with assms show ?thesis
    by (simp add: validateJsonStructure_def validateJsonStructure_try_def validate_parsed_def
        check_response_type_def check_multiple_tools_def)
qed

lemma validate_parsed_valid:
  assumes "validate_parsed h v = Inr r"
  shows "valid r = (errors r = [])"
proof (cases "\<not> truthy h v \<or> typeof v \<noteq> ''object''")
  case True
  with assms show ?thesis by (auto simp: validate_parsed_def)
next
  case False
  with assms obtain errs2 where "r = \<lparr>valid = (length errs2 = 0), errors = errs2\<rparr>"
    by (auto simp: validate_parsed_def bind_exn_eq_Inr)
  then show ?thesis by simp
qed

lemma validateJsonStructure_valid:
  "valid (validateJsonStructure h input) = (errors (validateJsonStructure h input) = [])"
proof (cases "validateJsonStructure_try h input")
  case (Inl a)
  then show ?thesis by (cases a) (simp add: validateJsonStructure_def)
next
  case (Inr r)
  then have "validate_parsed h input = Inr r
      \<or> (\<exists>text v. input = JStr text \<and> validate_parsed h v = Inr r)"
    by (auto simp: validateJsonStructure_try_def split: js.splits sum.splits)
  then have "valid r = (errors r = [])"
    using validate_parsed_valid by blast
  with Inr show ?thesis by (simp add: validateJsonStructure_def)
qed

text \<open>
  C6. \<open>validateJsonStructure\<close> returns \<^verbatim>\<open>valid = false\<close> exactly when its list
  of errors is not empty. For an object of type \<^verbatim>\<open>text_only\<close> it returns \<^verbatim>\<open>valid = true\<close>
  with no errors when \<^verbatim>\<open>text_response\<close> is truthy (for a string: not empty), and the
  single error that the field is required otherwise. The shapes that pass the checks for
  \<^verbatim>\<open>single_tool\<close> and \<^verbatim>\<open>multiple_tools\<close> are valid with no errors as well.
\<close>

theorem validateJsonStructure_checks:
  "valid (validateJsonStructure h input) = (errors (validateJsonStructure h input) = [])
   \<and> (get_prop response ''response_type'' = Inr (JStr ''text_only'')
        \<and> get_prop response ''text_response'' = Inr t
      \<longrightarrow> validateJsonStructure h response
          = \<lparr>valid = truthy h t,
             errors = (if truthy h t then [] else [required_text_response])\<rparr>)
   \<and> (get_prop response ''response_type'' = Inr (JStr ''single_tool'')
        \<and> get_prop response ''single_tool'' = Inr st \<and> truthy h st
        \<and> get_prop st ''tool_use'' = Inr tu \<and> truthy h tu
      \<longrightarrow> validateJsonStructure h response = \<lparr>valid = True, errors = []\<rparr>)
   \<and> (get_prop response ''response_type'' = Inr (JStr ''multiple_tools'')
        \<and> get_prop response ''multiple_tools'' = Inr mt \<and> truthy h mt
        \<and> get_prop mt ''tools'' = Inr (JArr ts) \<and> ts \<noteq> []
      \<longrightarrow> validateJsonStructure h response = \<lparr>valid = True, errors = []\<rparr>)"
proof (intro conjI impI)
  show "valid (validateJsonStructure h input) = (errors (validateJsonStructure h input) = [])"
    by (rule validateJsonStructure_valid)
next
  assume "get_prop response ''response_type'' = Inr (JStr ''text_only'')
        \<and> get_prop response ''text_response'' = Inr t"
  then show "validateJsonStructure h response
          = \<lparr>valid = truthy h t,
             errors = (if truthy h t then [] else [required_text_response])\<rparr>"
    by (simp add: validateJsonStructure_text_only required_text_response_def)
next
  assume "get_prop response ''response_type'' = Inr (JStr ''single_tool'')
        \<and> get_prop response ''single_tool'' = Inr st \<and> truthy h st
        \<and> get_prop st ''tool_use'' = Inr tu \<and> truthy h tu"
  then show "validateJsonStructure h response = \<lparr>valid = True, errors = []\<rparr>"
    by (intro validateJsonStructure_single_tool[of _ st _ tu]) simp_all
next
  assume "get_prop response ''response_type'' = Inr (JStr ''multiple_tools'')
        \<and> get_prop response ''multiple_tools'' = Inr mt \<and> truthy h mt
        \<and> get_prop mt ''tools'' = Inr (JArr ts) \<and> ts \<noteq> []"
  then show "validateJsonStructure h response = \<lparr>valid = True, errors = []\<rparr>"
    by (intro validateJsonStructure_multiple_tools[of _ mt _ ts]) simp_all
qed

theorem validateJsonStructure_checks_witness:
  "validateJsonStructure sample_host hello_response = \<lparr>valid = True, errors = []\<rparr>
   \<and> validateJsonStructure sample_host single_tool_response = \<lparr>valid = True, errors = []\<rparr>
   \<and> validateJsonStructure sample_host multiple_tools_response
       = \<lparr>valid = True, errors = []\<rparr>
   \<and> validateJsonStructure sample_host absent_text_response
       = \<lparr>valid = False, errors = [required_text_response]\<rparr>"
proof -
  let ?st = "JObj [(''tool_use'', search_tool)]"
  let ?mt = "JObj [(''tools'', JArr [search_tool, list_tool])]"
  have a: "get_prop hello_response ''response_type'' = Inr (JStr ''text_only'')
      \<and> get_prop hello_response ''text_response'' = Inr (JStr ''Hello'')"
    by (simp add: hello_response_def)
  have b: "get_prop single_tool_response ''response_type'' = Inr (JStr ''single_tool'')
      \<and> get_prop single_tool_response ''single_tool'' = Inr ?st \<and> truthy sample_host ?st
      \<and> get_prop ?st ''tool_use'' = Inr search_tool \<and> truthy sample_host search_tool"
    by (simp add: single_tool_response_def search_tool_def)
  have c: "get_prop multiple_tools_response ''response_type'' = Inr (JStr ''multiple_tools'')
      \<and> get_prop multiple_tools_response ''multiple_tools'' = Inr ?mt \<and> truthy sample_host ?mt
      \<and> get_prop ?mt ''tools'' = Inr (JArr [search_tool, list_tool])
      \<and> [search_tool, list_tool] \<noteq> []"
    by (simp add: multiple_tools_response_def)
  have d: "get_prop absent_text_response ''response_type'' = Inr (JStr ''text_only'')
      \<and> get_prop absent_text_response ''text_response'' = Inr JUndefined"
    by (simp add: absent_text_response_def)
  from validateJsonStructure_checks[of sample_host JNull hello_response "JStr ''Hello''"
      JNull JNull JNull "[]", THEN conjunct2, THEN conjunct1, THEN mp, OF a]
  have 1: "validateJsonStructure sample_host hello_response = \<lparr>valid = True, errors = []\<rparr>"
    by simp
  from validateJsonStructure_checks[of sample_host JNull single_tool_response JNull
      ?st search_tool JNull "[]", THEN conjunct2, THEN conjunct2, THEN conjunct1, THEN mp, OF b]
  have 2: "validateJsonStructure sample_host single_tool_response
      = \<lparr>valid = True, errors = []\<rparr>" .
  from validateJsonStructure_checks[of sample_host JNull multiple_tools_response JNull
      JNull JNull ?mt "[search_tool, list_tool]",
      THEN conjunct2, THEN conjunct2, THEN conjunct2, THEN mp, OF c]
  have 3: "validateJsonStructure sample_host multiple_tools_response
      = \<lparr>valid = True, errors = []\<rparr>" .
  from validateJsonStructure_checks[of sample_host JNull absent_text_response JUndefined
      JNull JNull JNull "[]", THEN conjunct2, THEN conjunct1, THEN mp, OF d]
  have 4: "validateJsonStructure sample_host absent_text_response
      = \<lparr>valid = False, errors = [required_text_response]\<rparr>"
    by simp
  from 1 2 3 4 show ?thesis by simp
qed

text \<open>
  A \<^verbatim>\<open>text_response\<close> that is present and is the empty string is rejected: the check
  \<^verbatim>\<open>!response.text_response\<close> tests truthiness.
\<close>

theorem validateJsonStructure_empty_text_response:
  "get_prop empty_text_response ''text_response'' = Inr (JStr [])
   \<and> validateJsonStructure sample_host empty_text_response
     = \<lparr>valid = False, errors = [required_text_response]\<rparr>"
  by (simp add: validateJsonStructure_def validateJsonStructure_try_def validate_parsed_def
      check_response_type_def check_text_only_def empty_text_response_def
      required_text_response_def)

text \<open>
  C10. For an object of type \<^verbatim>\<open>text_only\<close> whose \<^verbatim>\<open>text_response\<close> is absent or falsy,
  \<open>convertJsonToXml\<close> succeeds with the empty string as \<^verbatim>\<open>xml\<close>, while
  \<open>validateJsonStructure\<close> rejects the same object.
\<close>

theorem convertJsonToXml_falsy_text_response:
  "get_prop response ''response_type'' = Inr (JStr ''text_only'')
   \<and> get_prop response ''text_response'' = Inr t \<and> \<not> truthy h t
   \<and> get_prop response ''thinking'' = Inr th
   \<longrightarrow> convertJsonToXml h response
         = \<lparr>success = True, xml = Some (JStr []), error = None, reasoning = None,
            thinking = Some th\<rparr>
       \<and> validateJsonStructure h response
         = \<lparr>valid = False, errors = [required_text_response]\<rparr>"
proof (intro impI conjI)
  assume a: "get_prop response ''response_type'' = Inr (JStr ''text_only'')
   \<and> get_prop response ''text_response'' = Inr t \<and> \<not> truthy h t
   \<and> get_prop response ''thinking'' = Inr th"
  then have "convertJsonToXml h response =
     \<lparr>success = True, xml = Some (if truthy h t then t else JStr []), error = None,
      reasoning = None, thinking = Some th\<rparr>"
    by (intro convertJsonToXml_text_only) simp_all
  with a show "convertJsonToXml h response
         = \<lparr>success = True, xml = Some (JStr []), error = None, reasoning = None,
            thinking = Some th\<rparr>"
    by simp
  from a have "validateJsonStructure h response =
     \<lparr>valid = truthy h t,
      errors = (if truthy h t then []
                else [''text_response field is required for text_only response_type''])\<rparr>"
    by (intro validateJsonStructure_text_only) simp_all
  with a show "validateJsonStructure h response
         = \<lparr>valid = False, errors = [required_text_response]\<rparr>"
    by (simp add: required_text_response_def)
qed

theorem convertJsonToXml_falsy_text_response_witness:
  "convertJsonToXml sample_host absent_text_response
     = \<lparr>success = True, xml = Some (JStr []), error = None, reasoning = None,
        thinking = Some JUndefined\<rparr>
   \<and> validateJsonStructure sample_host absent_text_response
     = \<lparr>valid = False, errors = [required_text_response]\<rparr>"
proof -
  have a: "get_prop absent_text_response ''response_type'' = Inr (JStr ''text_only'')
      \<and> get_prop absent_text_response ''text_response'' = Inr JUndefined
      \<and> \<not> truthy sample_host JUndefined
      \<and> get_prop absent_text_response ''thinking'' = Inr JUndefined"
    by (simp add: absent_text_response_def)
  from convertJsonToXml_falsy_text_response[of absent_text_response JUndefined sample_host
      JUndefined, THEN mp, OF a]
  show ?thesis .
qed

end
